theory Spec2Isabelle
  imports Main "HOL-Library.Word"
begin

unbundle bit_operations_syntax

section \<open>The remake debugger command interface (cmd.c, command/set.h)\<close>

subsection \<open>Types declared outside the two source files\<close>

text \<open>
  Modelled from the spec: \<^verbatim>\<open>debug_return_t\<close> is declared in debugger.h, which is not
  among the sources. cmd.c uses \<^verbatim>\<open>continue_execution\<close>, \<^verbatim>\<open>debug_readloop\<close> and
  \<^verbatim>\<open>debug_cmd_error\<close>; the spec's ControlSignal adds a quit-debugger signal.
\<close>

datatype debug_return_t =
  continue_execution | debug_readloop | debug_cmd_error | quit_debugger

text \<open>
  Modelled from the spec: \<^verbatim>\<open>debug_enter_reason_t\<close> is declared in debugger.h. cmd.c names
  the three breakpoint reasons; the spec's BreakReason adds on-error, on-fatal-error and
  manual-request.
\<close>

datatype debug_enter_reason_t =
  DEBUG_BRKPT_AFTER_CMD | DEBUG_BRKPT_BEFORE_PREREQ | DEBUG_BRKPT_AFTER_PREREQ
  | DEBUG_ERROR_HIT | DEBUG_FATAL_ERROR_HIT | DEBUG_EXPLICIT_CALL

text \<open>
  Modelled from the spec: the global \<^verbatim>\<open>in_debugger\<close> and the macro
  \<^verbatim>\<open>DEBUGGER_QUIT_RC\<close> are declared in debugger.h. cmd.c stores \<^verbatim>\<open>false\<close>,
  \<^verbatim>\<open>true\<close> and \<^verbatim>\<open>DEBUGGER_QUIT_RC\<close> in it; the spec's guaranteed-quit terminal state
  is a third state, distinct from the other two.
\<close>

datatype in_debugger_t = DBG_FALSE | DBG_TRUE | DEBUGGER_QUIT_RC

text \<open>
  Modelled from the spec: the tracing field of \<^verbatim>\<open>file_t\<close> is a set of bit flags
  (active / temporary); \<^verbatim>\<open>BRK_NONE\<close> and \<^verbatim>\<open>BRK_TEMP\<close> are enumerators of a
  declaration that is not among the sources. \<^verbatim>\<open>BRK_NONE\<close> is the empty mask and
  \<^verbatim>\<open>BRK_TEMP\<close> a single bit; no statement below depends on which bit it is.
\<close>

type_synonym breakpoint_mask_t = "32 word"

definition BRK_NONE :: breakpoint_mask_t where
  "BRK_NONE = 0x00"

definition BRK_TEMP :: breakpoint_mask_t where
  "BRK_TEMP = 0x08"

type_synonym addr = nat

text \<open>Origin of a variable binding; the handlers of this file write \<^verbatim>\<open>o_debugger\<close>.\<close>

datatype variable_origin = o_default | o_file | o_debugger

record variable_t =
  v_value :: string
  v_origin :: variable_origin
  v_fileinfo :: nat

subsection \<open>The process-wide state\<close>

text \<open>
  The globals and static locals that cmd.c and command/set.h read or write, the fields of
  the objects they reach through pointers (a \<^verbatim>\<open>file_t\<close> and a target stack node are
  addresses), the history list and the text written to the terminal.
\<close>

record dbg_state =
  last_stop_reason :: debug_enter_reason_t
  in_debugger :: in_debugger_t
  i_debugger_stepping :: int
  i_debugger_nexting :: int
  debugger_on_error :: bool
  makelevel :: nat
  use_readline_flag :: bool
  b_init :: bool
  b_readline_init :: bool
  file2lines_ht_size :: nat
  tracing :: "addr \<Rightarrow> breakpoint_mask_t"
  file_name :: "addr \<Rightarrow> string"
  node_target :: "addr \<Rightarrow> addr option"
  p_target_loc :: "addr option"
  psz_target_name :: string
  i_stack_pos :: nat
  p_stack :: "addr option"
  p_stack_top :: "addr option"
  p_floc_stack :: "addr option"
  p_stack_floc_top :: "addr option"
  history :: "string list"
  terminal :: "string list"
  basename_filenames :: int
  db_level :: int
  ignore_errors_flag :: int
  keep_going_flag :: int
  silent_flag :: int
  no_shell_trace :: int
  variables :: "string \<rightharpoonup> variable_t"

subsection \<open>enter\_debugger: the decision whether to stop (cmd.c 409-424)\<close>

datatype entry = Resumed dbg_state | Engaged dbg_state | Segfault

text \<open>
  Lines 415-424. In the counted branch \<^verbatim>\<open>p_target->tracing\<close> is read without a null
  check: a null \<^verbatim>\<open>p_target\<close> is a fault there.
\<close>

definition stop_check :: "addr option \<Rightarrow> int \<Rightarrow> dbg_state \<Rightarrow> entry" where
  "stop_check p_target errcode s =
    (if i_debugger_stepping s > 1 \<or> i_debugger_nexting s > 1 then
       (let s1 = (if i_debugger_stepping s \<noteq> 0
                  then s\<lparr>i_debugger_stepping := i_debugger_stepping s - 1\<rparr> else s);
            s2 = (if i_debugger_nexting s1 \<noteq> 0
                  then s1\<lparr>i_debugger_nexting := i_debugger_nexting s1 - 1\<rparr> else s1)
        in (case p_target of
              None \<Rightarrow> Segfault
            | Some t \<Rightarrow> if tracing s2 t = 0 then Resumed s2 else Engaged s2))
     else
       (case p_target of
          None \<Rightarrow> Engaged s
        | Some t \<Rightarrow>
            if \<not> debugger_on_error s
               \<and> \<not> (i_debugger_stepping s \<noteq> 0 \<or> i_debugger_nexting s \<noteq> 0)
               \<and> tracing s t = 0 \<and> errcode \<noteq> - 2
            then Resumed s else Engaged s))"

text \<open>Lines 409-424: record the reason, leave at once in the quit state, else decide.\<close>

definition enter_decision ::
  "addr option \<Rightarrow> int \<Rightarrow> debug_enter_reason_t \<Rightarrow> dbg_state \<Rightarrow> entry" where
  "enter_decision p_target errcode reason s =
    (let s0 = s\<lparr>last_stop_reason := reason\<rparr> in
     if in_debugger s0 = DEBUGGER_QUIT_RC then Resumed s0
     else stop_check p_target errcode s0)"

text \<open>Lines 426-436: the switch on the recorded reason clears the whole tracing field.\<close>

definition clear_temporary :: "addr option \<Rightarrow> dbg_state \<Rightarrow> dbg_state" where
  "clear_temporary p_target s =
    (case p_target of
       None \<Rightarrow> s
     | Some t \<Rightarrow>
         if tracing s t AND BRK_TEMP \<noteq> 0 then
           (case last_stop_reason s of
              DEBUG_BRKPT_AFTER_CMD \<Rightarrow> s\<lparr>tracing := (tracing s)(t := BRK_NONE)\<rparr>
            | DEBUG_BRKPT_BEFORE_PREREQ \<Rightarrow> s\<lparr>tracing := (tracing s)(t := BRK_NONE)\<rparr>
            | DEBUG_BRKPT_AFTER_PREREQ \<Rightarrow> s\<lparr>tracing := (tracing s)(t := BRK_NONE)\<rparr>
            | _ \<Rightarrow> s)
         else s)"

subsection \<open>Strings and the two sorted tables (cmd.c 91-143)\<close>

text \<open>The \<^verbatim>\<open>whitespace\<close> macro of cmd.c: a blank or a tab.\<close>

definition whitespace :: "char \<Rightarrow> bool" where
  "whitespace c = (c = CHR '' '' \<or> c = CHR 0x09)"

text \<open>The sign of C's \<^verbatim>\<open>strcmp\<close>: bytes compared as unsigned values, the end first.\<close>

fun strcmp :: "string \<Rightarrow> string \<Rightarrow> int" where
  "strcmp [] [] = 0"
| "strcmp [] (y # ys) = - int (of_char y)"
| "strcmp (x # xs) [] = int (of_char x)"
| "strcmp (x # xs) (y # ys) =
     (if x = y then strcmp xs ys else int (of_char x) - int (of_char y))"

text \<open>\<^verbatim>\<open>commands[]\<close>: long name and short name, up to the null entry.\<close>

definition commands :: "(string \<times> char) list" where
  "commands =
    [(''break'', CHR ''b''), (''cd'', CHR ''C''), (''comment'', CHR ''#''),
     (''continue'', CHR ''c''), (''delete'', CHR ''d''), (''down'', CHR ''D''),
     (''edit'', CHR ''e''), (''expand'', CHR ''x''), (''finish'', CHR ''F''),
     (''frame'', CHR ''f''), (''help'', CHR ''h''), (''info'', CHR ''i''),
     (''list'', CHR ''l''), (''load'', CHR ''M''), (''next'', CHR ''n''),
     (''print'', CHR ''p''), (''pwd'', CHR ''P''), (''quit'', CHR ''q''),
     (''run'', CHR ''R''), (''set'', CHR ''=''), (''setq'', CHR 0x22),
     (''setqx'', CHR 0x60), (''shell'', CHR ''!''), (''show'', CHR ''S''),
     (''skip'', CHR ''k''), (''source'', CHR ''<''), (''step'', CHR ''s''),
     (''target'', CHR ''t''), (''up'', CHR ''u''), (''where'', CHR ''T''),
     (''write'', CHR ''w'')]"

text \<open>\<^verbatim>\<open>aliases[]\<close>: real command name first, alias second, as the struct has them.\<close>

definition aliases :: "(string \<times> string) list" where
  "aliases =
    [(''shell'', ''!!''), (''help'', ''?''), (''break'', ''L''),
     (''where'', ''backtrace''), (''where'', ''bt''), (''quit'', ''exit''),
     (''run'', ''restart''), (''quit'', ''return'')]"

text \<open>The letters that \<^verbatim>\<open>cmd_initialize\<close> registers, in its order (cmd.c 258-288).\<close>

definition initialized_letters :: "char list" where
  "initialized_letters =
    [CHR ''b'', CHR ''C'', CHR ''#'', CHR ''c'', CHR ''d'', CHR ''D'', CHR ''e'',
     CHR ''x'', CHR ''F'', CHR ''f'', CHR ''h'', CHR ''i'', CHR ''l'', CHR ''M'',
     CHR ''n'', CHR ''p'', CHR ''P'', CHR ''q'', CHR ''R'', CHR ''='', CHR 0x22,
     CHR 0x60, CHR ''!'', CHR ''S'', CHR ''k'', CHR ''<'', CHR ''s'', CHR ''t'',
     CHR ''u'', CHR ''T'', CHR ''w'']"

subsection \<open>find\_command (cmd.c 154-181)\<close>

text \<open>The first loop: the name, or the command the alias stands for.\<close>

fun scan_aliases :: "(string \<times> string) list \<Rightarrow> string \<Rightarrow> string" where
  "scan_aliases [] psz_name = psz_name"
| "scan_aliases ((command, alias) # rest) psz_name =
     (let cmp = strcmp psz_name alias in
      if cmp = 0 then command
      else if cmp < 0 then psz_name
      else scan_aliases rest psz_name)"

text \<open>
  The second loop. The result is the slot \<^verbatim>\<open>&short_command[(uint8_t) short_name]\<close>,
  named by its index; \<open>None\<close> is the null pointer.
\<close>

fun scan_commands :: "(string \<times> char) list \<Rightarrow> string \<Rightarrow> char option" where
  "scan_commands [] psz_name = None"
| "scan_commands ((long_name, short_name) # rest) psz_name =
     (let cmp = strcmp psz_name long_name in
      if cmp = 0 then Some short_name
      else if cmp < 0 then None
      else scan_commands rest psz_name)"

definition find_command :: "string \<Rightarrow> char option" where
  "find_command psz_name = scan_commands commands (scan_aliases aliases psz_name)"

subsection \<open>Helpers of fns.c, which is not among the sources\<close>

text \<open>
  Modelled from the spec: \<^verbatim>\<open>get_word\<close> yields the first whitespace-delimited token.
  It skips leading blanks, takes the longest run of non-blank characters and overwrites
  the delimiter after it with the terminating zero; the caller's pointer is left just
  behind that one character, so the callers skip further blanks themselves
  (cmd.c 314-315, 357-358; set.h 77-78). The result is the word and the text the pointer
  is left at.
\<close>

definition get_word :: "string \<Rightarrow> string \<times> string" where
  "get_word psz_str =
    (let t = dropWhile whitespace psz_str
     in (takeWhile (\<lambda>c. \<not> whitespace c) t,
         drop 1 (dropWhile (\<lambda>c. \<not> whitespace c) t)))"

text \<open>
  Modelled from the spec: \<^verbatim>\<open>is_abbrev_of\<close> is the case-sensitive prefix test with a
  minimum length.
\<close>

definition is_abbrev_of :: "string \<Rightarrow> string \<Rightarrow> nat \<Rightarrow> bool" where
  "is_abbrev_of psz_substr psz_word i_min =
    (i_min \<le> length psz_substr \<and> take (length psz_substr) psz_word = psz_substr)"

text \<open>
  Modelled from the spec: \<^verbatim>\<open>on_off_toggle\<close> accepts "on", "off" and "toggle" (flip);
  any other text leaves the flag as it is. The result is the flag's new value.
\<close>

definition on_off_toggle :: "string \<Rightarrow> int \<Rightarrow> int" where
  "on_off_toggle psz_onoff var =
    (if psz_onoff = ''on'' then 1
     else if psz_onoff = ''off'' then 0
     else if psz_onoff = ''toggle'' then (if var = 0 then 1 else 0)
     else var)"

text \<open>
  Modelled from the spec: \<^verbatim>\<open>stripwhite\<close> and \<^verbatim>\<open>chomp\<close> trim a line: the first on
  both sides, the second at its end.
\<close>

definition chomp :: "string \<Rightarrow> string" where
  "chomp line =
    rev (dropWhile (\<lambda>c. whitespace c \<or> c = CHR 0x0A \<or> c = CHR 0x0D) (rev line))"

definition stripwhite :: "string \<Rightarrow> string" where
  "stripwhite line = rev (dropWhile whitespace (rev (dropWhile whitespace line)))"

subsection \<open>The loop that was meant to skip blanks (cmd.c 357-358, set.h 77-78)\<close>

text \<open>
  \<^verbatim>\<open>while (*psz_args && whitespace (*psz_args)) *psz_args +=1;\<close> adds one to the
  character the pointer is at, not to the pointer: the text keeps its length and its
  first character changes until it is no blank.
\<close>

definition char_incr :: "char \<Rightarrow> char" where
  "char_incr c = char_of (of_char c + (1::nat))"

function bump_blanks :: "string \<Rightarrow> string" where
  "bump_blanks [] = []"
| "bump_blanks (c # cs) =
     (if whitespace c then bump_blanks (char_incr c # cs) else c # cs)"
  by pat_completeness auto
termination
proof (relation "measure (\<lambda>s. case s of [] \<Rightarrow> 0 | c # _ \<Rightarrow> if whitespace c then 1 else 0)")
  show "wf (measure (\<lambda>s. case s of [] \<Rightarrow> 0 | c # _ \<Rightarrow> if whitespace c then (1::nat) else 0))"
    by simp
next
  fix c :: char and cs :: string
  assume ws: "whitespace c"
  have blank: "char_incr CHR '' '' = CHR ''!''" by code_simp
  have tab: "char_incr CHR 0x09 = CHR 0x0A" by code_simp
  from ws have "\<not> whitespace (char_incr c)"
    unfolding whitespace_def using blank tab by auto
  with ws show "(char_incr c # cs, c # cs)
      \<in> measure (\<lambda>s. case s of [] \<Rightarrow> 0 | c # _ \<Rightarrow> if whitespace c then 1 else 0)"
    by simp
qed

subsection \<open>The variable table of the build engine\<close>

text \<open>
  Modelled from the spec: the table is looked up by name; a binding's canonical name is
  its key. A name is passed to the engine as a pointer and a length: the name meant is
  the \<open>length\<close> bytes at the pointer. \<^verbatim>\<open>c_bytes\<close> reads them from a zero-terminated
  text (the terminating zero is the byte after its last character).
\<close>

definition c_bytes :: "string \<Rightarrow> nat \<Rightarrow> string" where
  "c_bytes name len = take len (name @ [CHR 0x00])"

text \<open>The result of a lookup is the variable found: its name and its binding.\<close>

definition lookup_variable ::
  "string \<Rightarrow> nat \<Rightarrow> dbg_state \<Rightarrow> (string \<times> variable_t) option" where
  "lookup_variable name len s =
    (case variables s (c_bytes name len) of
       None \<Rightarrow> None
     | Some v \<Rightarrow> Some (c_bytes name len, v))"

text \<open>
  Modelled from the spec: the retry strips one leading sigil character from the name and
  succeeds only when a binding exists under the rest.
\<close>

definition try_without_dollar :: "string \<Rightarrow> dbg_state \<Rightarrow> (string \<times> variable_t) option" where
  "try_without_dollar psz_varname s =
    (case psz_varname of
       [] \<Rightarrow> None
     | c # rest \<Rightarrow>
         if c = CHR ''$'' then
           (case variables s rest of None \<Rightarrow> None | Some v \<Rightarrow> Some (rest, v))
         else None)"

text \<open>Modelled from the spec: define-with-origin, under the name of \<open>len\<close> bytes.\<close>

definition define_variable_in_set ::
  "string \<Rightarrow> nat \<Rightarrow> string \<Rightarrow> variable_origin \<Rightarrow> nat \<Rightarrow> dbg_state \<Rightarrow> dbg_state" where
  "define_variable_in_set name len val origin flocp s =
    s\<lparr>variables := (variables s)(c_bytes name len \<mapsto>
         \<lparr>v_value = val, v_origin = origin, v_fileinfo = flocp\<rparr>)\<rparr>"

subsection \<open>What a command handler can do\<close>

text \<open>
  A handler returns a control signal, or jumps back to the loop's \<^verbatim>\<open>setjmp\<close>, or ends
  the process, or faults.
\<close>

datatype cmd_outcome =
  Returns debug_return_t dbg_state | Longjmps dbg_state | Exits | Faults

text \<open>
  The command bodies and helpers that live in files not among the sources, as parameters:
  the handler each \<^verbatim>\<open>dbg_cmd_*_init\<close> registers under its letter (all but set's),
  \<^verbatim>\<open>dbg_cmd_step\<close> and \<^verbatim>\<open>dbg_cmd_quit\<close>, which the loop calls by name, \<^verbatim>\<open>get_int\<close>
  and \<^verbatim>\<open>variable_expand\<close>.
\<close>

record externals =
  cmd_func :: "char \<Rightarrow> string option \<Rightarrow> dbg_state \<Rightarrow> cmd_outcome"
  dbg_cmd_step :: "string option \<Rightarrow> dbg_state \<Rightarrow> cmd_outcome"
  dbg_cmd_quit :: "string option \<Rightarrow> dbg_state \<Rightarrow> cmd_outcome"
  get_int :: "string \<Rightarrow> int option"
  variable_expand :: "string \<Rightarrow> dbg_state \<Rightarrow> string"

text \<open>The terminal records each message; a printing routine of another file by its call.\<close>

definition dbg_msg :: "string \<Rightarrow> dbg_state \<Rightarrow> dbg_state" where
  "dbg_msg m s = s\<lparr>terminal := terminal s @ [m]\<rparr>"

subsection \<open>dbg\_cmd\_set\_var (cmd.c 348-383)\<close>

text \<open>
  Either branch defines under the name of the variable found, \<^verbatim>\<open>p_v->name\<close>, with the
  length \<^verbatim>\<open>u_len\<close> of the word that was typed.
\<close>

definition set_var_define ::
  "externals \<Rightarrow> string \<Rightarrow> string \<Rightarrow> int \<Rightarrow> string \<times> variable_t \<Rightarrow> dbg_state \<Rightarrow> dbg_state" where
  "set_var_define E psz_varname psz_args expand p_v s =
    (let u_len = length psz_varname;
         psz_value = (if expand \<noteq> 0 then variable_expand E psz_args s else psz_args);
         s1 = define_variable_in_set (fst p_v) u_len psz_value o_debugger
                (v_fileinfo (snd p_v)) s
     in dbg_msg (''Variable '' @ psz_varname @ '' now has value '' @ [CHR 0x27]
                   @ psz_value @ [CHR 0x27]) s1)"

definition dbg_cmd_set_var ::
  "externals \<Rightarrow> string option \<Rightarrow> int \<Rightarrow> dbg_state \<Rightarrow> debug_return_t \<times> dbg_state" where
  "dbg_cmd_set_var E psz_args expand s =
    (case psz_args of
       None \<Rightarrow> (debug_readloop, dbg_msg ''You need to supply a variable name.'' s)
     | Some a \<Rightarrow>
         if length a = 0 then
           (debug_readloop, dbg_msg ''You need to supply a variable name.'' s)
         else
           (case get_word a of
              (psz_varname, rest) \<Rightarrow>
                (let args = bump_blanks rest in
                 case lookup_variable psz_varname (length psz_varname) s of
                   Some p_v \<Rightarrow>
                     (debug_readloop, set_var_define E psz_varname args expand p_v s)
                 | None \<Rightarrow>
                     (case try_without_dollar psz_varname s of
                        Some p_v \<Rightarrow>
                          (debug_readloop, set_var_define E psz_varname args expand p_v s)
                      | None \<Rightarrow> (debug_readloop, s)))))"

subsection \<open>dbg\_cmd\_set (command/set.h 31-128)\<close>

text \<open>\<^verbatim>\<open>set_subcommands[]\<close>: name and one-line help, up to the null entry.\<close>

definition set_subcommands :: "(string \<times> string) list" where
  "set_subcommands =
    [(''basename'', ''Set if we are to show short or long filenames''),
     (''debug'', ''Set GNU Make debug mask (set via --debug or -d).''),
     (''ignore-errors'', ''Set value of GNU Make --ignore-errors (or -i) flag.''),
     (''keep-going'', ''Set value of GNU Make --keep-going (or -k) flag.''),
     (''silent'', ''Set value of GNU Make --silent (or -s) flags.''),
     (''trace'', ''Set value of shell_tracing.''),
     (''VARIABLE'', ''Set a GNU Make variable VARIABLE.'')]"

definition dbg_help_subcmd_entry :: "string \<Rightarrow> string \<times> string \<Rightarrow> dbg_state \<Rightarrow> dbg_state" where
  "dbg_help_subcmd_entry psz_command entry s =
    dbg_msg (psz_command @ '' '' @ fst entry @ '' -- '' @ snd entry) s"

definition dbg_cmd_show :: "string \<Rightarrow> dbg_state \<Rightarrow> dbg_state" where
  "dbg_cmd_show psz_arg s = dbg_msg (''show '' @ psz_arg) s"

definition dbg_cmd_set ::
  "externals \<Rightarrow> string option \<Rightarrow> dbg_state \<Rightarrow> debug_return_t \<times> dbg_state" where
  "dbg_cmd_set E psz_args s =
    (if psz_args = None \<or> psz_args = Some [] then
       (debug_readloop, fold (dbg_help_subcmd_entry ''set'') set_subcommands s)
     else
       (case get_word (case psz_args of Some a \<Rightarrow> a | None \<Rightarrow> []) of
          (psz_varname, rest) \<Rightarrow>
            (let args = bump_blanks rest in
             if is_abbrev_of psz_varname ''variable'' 3 then
               dbg_cmd_set_var E (Some args) 3 s
             else if is_abbrev_of psz_varname ''basename'' 4 then
               (debug_readloop,
                dbg_cmd_show ''basename''
                  (s\<lparr>basename_filenames :=
                       on_off_toggle (if args = [] then ''toggle'' else args)
                         (basename_filenames s)\<rparr>))
             else if is_abbrev_of psz_varname ''debug'' 3 then
               (debug_readloop,
                (case get_int E args of
                   Some dbg_mask \<Rightarrow> s\<lparr>db_level := dbg_mask\<rparr>
                 | None \<Rightarrow> s))
             else if is_abbrev_of psz_varname ''ignore-errors'' 3 then
               (debug_readloop,
                dbg_cmd_show ''ignore_errors''
                  (s\<lparr>ignore_errors_flag :=
                       on_off_toggle (if args = [] then ''toggle'' else args)
                         (ignore_errors_flag s)\<rparr>))
             else if is_abbrev_of psz_varname ''keep-going'' 3 then
               (debug_readloop,
                dbg_cmd_show ''keep-going''
                  (s\<lparr>keep_going_flag :=
                       on_off_toggle (if args = [] then ''toggle'' else args)
                         (keep_going_flag s)\<rparr>))
             else if is_abbrev_of psz_varname ''silent'' 3 then
               (debug_readloop,
                dbg_cmd_show ''silent''
                  (s\<lparr>silent_flag :=
                       on_off_toggle (if args = [] then ''toggle'' else args)
                         (silent_flag s)\<rparr>))
             else if is_abbrev_of psz_varname ''trace'' 3 then
               (debug_readloop,
                dbg_cmd_show ''silent''
                  (if args = [] then
                     s\<lparr>no_shell_trace := on_off_toggle ''toggle'' (no_shell_trace s)\<rparr>
                   else
                     s\<lparr>silent_flag := on_off_toggle args (silent_flag s)\<rparr>))
             else
               dbg_cmd_set_var E (Some args) 1 s)))"

subsection \<open>The slot table and execute\_line (cmd.c 146-150, 254-321)\<close>

text \<open>
  \<^verbatim>\<open>short_command[c].func\<close>: null in every slot until \<^verbatim>\<open>cmd_initialize\<close> has run
  (\<^verbatim>\<open>b_init\<close>), then the handler registered for each of its letters; set's is in
  command/set.h.
\<close>

definition short_command_func ::
  "externals \<Rightarrow> dbg_state \<Rightarrow> char \<Rightarrow> (string option \<Rightarrow> dbg_state \<Rightarrow> cmd_outcome) option" where
  "short_command_func E s c =
    (if b_init s \<and> c \<in> set initialized_letters then
       (if c = CHR ''='' then
          Some (\<lambda>a s'. case dbg_cmd_set E a s' of (r, s'') \<Rightarrow> Returns r s'')
        else Some (cmd_func E c))
     else None)"

text \<open>
  Lines 299-306: the slot the first word of a line resolves to, by its index; \<open>None\<close>
  is the null pointer.
\<close>

definition resolve_command :: "externals \<Rightarrow> dbg_state \<Rightarrow> string \<Rightarrow> char option" where
  "resolve_command E s psz_word =
    (if length psz_word = 1 then
       (case psz_word of
          c # _ \<Rightarrow> if short_command_func E s c \<noteq> None then Some c else None
        | [] \<Rightarrow> None)
     else find_command psz_word)"

definition execute_line :: "externals \<Rightarrow> string \<Rightarrow> dbg_state \<Rightarrow> cmd_outcome" where
  "execute_line E psz_line s =
    (case get_word psz_line of
       (psz_word, rest) \<Rightarrow>
         (case resolve_command E s psz_word of
            None \<Rightarrow>
              Returns debug_readloop
                (dbg_msg (''No such debugger command: '' @ psz_word @ ''.'') s)
          | Some c \<Rightarrow>
              (case short_command_func E s c of
                 None \<Rightarrow> Faults
               | Some func \<Rightarrow> func (Some (dropWhile whitespace rest)) s)))"

subsection \<open>enter\_debugger: from the decision to the loop (cmd.c 426-508)\<close>

function decimal :: "nat \<Rightarrow> string" where
  "decimal n =
    (if n < 10 then [char_of (48 + n)]
     else decimal (n div 10) @ [char_of (48 + n mod 10)])"
  by pat_completeness auto
termination
  by (relation "measure (\<lambda>n. n)") auto

definition decimal_int :: "int \<Rightarrow> string" where
  "decimal_int i = (if i < 0 then ''-'' @ decimal (nat (- i)) else decimal (nat i))"

text \<open>
  Lines 472-483, with \<^verbatim>\<open>MAX_NEST_DEPTH\<close> 10: one glyph per level up to five, and three
  dots once the counter has reached five.
\<close>

definition nest_depth :: "char \<Rightarrow> nat \<Rightarrow> string" where
  "nest_depth glyph level =
    (let i = min (level + 1) (10 - 5)
     in replicate i glyph @ (if 10 - 5 = i then ''...'' else []))"

text \<open>Lines 438-450: the two one-time initialisations.\<close>

definition lazy_init :: "dbg_state \<Rightarrow> dbg_state" where
  "lazy_init s =
    (let s1 = (if use_readline_flag s \<and> \<not> b_readline_init s
               then s\<lparr>history := history s @ [Nil], b_readline_init := True\<rparr> else s)
     in if \<not> b_init s1 then s1\<lparr>file2lines_ht_size := 0, b_init := True\<rparr> else s1)"

text \<open>Lines 453-470: the frame position reporting area.\<close>

definition set_frame_position :: "addr option \<Rightarrow> addr option \<Rightarrow> dbg_state \<Rightarrow> dbg_state" where
  "set_frame_position p p_target s =
    (let s1 = s\<lparr>p_target_loc := None, psz_target_name := [], i_stack_pos := 0,
                 p_stack := p, p_stack_top := p, p_floc_stack := p_stack_floc_top s\<rparr>
     in case (case p of None \<Rightarrow> None | Some n \<Rightarrow> node_target s1 n) of
          Some f \<Rightarrow> s1\<lparr>p_target_loc := Some f, psz_target_name := file_name s1 f\<rparr>
        | None \<Rightarrow>
            (case p_target of
               Some f \<Rightarrow> s1\<lparr>p_target_loc := Some f, psz_target_name := file_name s1 f\<rparr>
             | None \<Rightarrow> s1))"

text \<open>Lines 485-506: the debugger is active; the banner for the error code.\<close>

definition error_banner :: "int \<Rightarrow> dbg_state \<Rightarrow> dbg_state" where
  "error_banner errcode s =
    (let s1 = s\<lparr>in_debugger := DBG_TRUE\<rparr> in
     if errcode \<noteq> 0 then
       (if errcode = - 1 then
          dbg_msg ''***Entering debugger because we encountered an error.'' s1
        else if errcode = - 2 then
          (if makelevel s1 = 0 then
             dbg_msg ''Use q to quit or R to restart'' (dbg_msg ''Makefile terminated.'' s1)
           else
             (dbg_msg (''the makefile at this level or '' @ [CHR 0x27] @ ''s'' @ [CHR 0x27]
                       @ '', '' @ [CHR 0x27] @ ''n'' @ [CHR 0x27] @ '', or '' @ [CHR 0x27] @ ''F''
                       @ [CHR 0x27] @ '' to continue in parent'')
                (dbg_msg (''Makefile finished at level '' @ decimal (makelevel s1)
                            @ ''. Use R to restart'') s1))
             \<lparr>in_debugger := DEBUGGER_QUIT_RC\<rparr>)
        else
          dbg_msg (''Exiting the debugger will exit make with exit code ''
                     @ decimal_int errcode @ ''.'')
            (dbg_msg ''***Entering debugger because we encountered a fatal error.'' s1))
     else s1)"

definition print_debugger_location ::
  "addr option \<Rightarrow> debug_enter_reason_t \<Rightarrow> dbg_state \<Rightarrow> dbg_state" where
  "print_debugger_location p_target reason s = dbg_msg ''location'' s"

definition engage_setup ::
  "addr option \<Rightarrow> addr option \<Rightarrow> int \<Rightarrow> debug_enter_reason_t \<Rightarrow> dbg_state \<Rightarrow> dbg_state" where
  "engage_setup p p_target errcode reason s =
    print_debugger_location p_target reason
      (error_banner errcode
        (set_frame_position p p_target
          (lazy_init (clear_temporary p_target s))))"

text \<open>
  Lines 409-508 together: how a call leaves the decision, and the state in which the loop
  starts when it engages.
\<close>

definition enter_prologue ::
  "addr option \<Rightarrow> addr option \<Rightarrow> int \<Rightarrow> debug_enter_reason_t \<Rightarrow> dbg_state \<Rightarrow> entry" where
  "enter_prologue p p_target errcode reason s =
    (case enter_decision p_target errcode reason s of
       Engaged s1 \<Rightarrow> Engaged (engage_setup p p_target errcode reason s1)
     | Resumed s1 \<Rightarrow> Resumed s1
     | Segfault \<Rightarrow> Segfault)"

subsection \<open>enter\_debugger: the loop (cmd.c 510-557)\<close>

text \<open>
  The input is the list of what the successive line acquisitions yield: a line, or
  \<open>None\<close> for the null pointer at the end of input. Acquiring a line blocks; a call whose
  input is used up before the loop ends does not return.
\<close>

datatype 'a outcome = Done 'a | Blocked | ProcessExit | Crashed

definition prompt :: "dbg_state \<Rightarrow> string" where
  "prompt s =
    ''remake'' @ nest_depth CHR ''<'' (makelevel s)
      @ (if use_readline_flag s then decimal (length (history s)) else ''0'')
      @ nest_depth CHR ''>'' (makelevel s) @ '' ''"

definition add_history :: "string \<Rightarrow> dbg_state \<Rightarrow> dbg_state" where
  "add_history line s = s\<lparr>history := history s @ [line]\<rparr>"

text \<open>One pass of the loop body after the line has been acquired (lines 538-549).\<close>

definition loop_body :: "externals \<Rightarrow> string option \<Rightarrow> dbg_state \<Rightarrow> cmd_outcome" where
  "loop_body E line s =
    (case line of
       Some l \<Rightarrow>
         (let t = stripwhite (if use_readline_flag s then l else chomp l) in
          if t \<noteq> [] then execute_line E t (add_history t s)
          else dbg_cmd_step E (Some []) (add_history ''step'' s))
     | None \<Rightarrow>
         (case dbg_cmd_quit E None s of
            Returns r s1 \<Rightarrow> Returns debug_readloop s1
          | other \<Rightarrow> other))"

fun read_loop ::
  "externals \<Rightarrow> string option list \<Rightarrow> dbg_state
    \<Rightarrow> (debug_return_t \<times> dbg_state \<times> string option list) outcome" where
  "read_loop E [] s = Blocked"
| "read_loop E (line # rest) s =
    (case loop_body E line (dbg_msg (prompt s) s) of
       Returns r s1 \<Rightarrow>
         if r = debug_readloop \<or> r = debug_cmd_error then read_loop E rest s1
         else Done (r, s1, rest)
     | Longjmps s1 \<Rightarrow>
         read_loop E rest (dbg_msg ''Internal error jumped back to debugger loop'' s1)
     | Exits \<Rightarrow> ProcessExit
     | Faults \<Rightarrow> Crashed)"

definition enter_debugger ::
  "externals \<Rightarrow> addr option \<Rightarrow> addr option \<Rightarrow> int \<Rightarrow> debug_enter_reason_t
    \<Rightarrow> string option list \<Rightarrow> dbg_state
    \<Rightarrow> (debug_return_t \<times> dbg_state \<times> string option list) outcome" where
  "enter_debugger E p p_target errcode reason input s =
    (case enter_prologue p p_target errcode reason s of
       Segfault \<Rightarrow> Crashed
     | Resumed s1 \<Rightarrow> Done (continue_execution, s1, input)
     | Engaged s1 \<Rightarrow>
         (case read_loop E input s1 of
            Done (r, s2, rest) \<Rightarrow>
              Done (r, if in_debugger s2 \<noteq> DEBUGGER_QUIT_RC
                       then s2\<lparr>in_debugger := DBG_FALSE\<rparr> else s2, rest)
          | Blocked \<Rightarrow> Blocked
          | ProcessExit \<Rightarrow> ProcessExit
          | Crashed \<Rightarrow> Crashed))"

subsection \<open>Successive calls, and what the statements below need to say\<close>

text \<open>
  The build engine calls \<^verbatim>\<open>enter_debugger\<close> at one halt point after another: the calls
  of a list in turn, each on the state and the input the one before left.
\<close>

fun enter_debugger_calls ::
  "externals \<Rightarrow> (addr option \<times> addr option \<times> int \<times> debug_enter_reason_t) list
    \<Rightarrow> string option list \<Rightarrow> dbg_state
    \<Rightarrow> (debug_return_t list \<times> dbg_state \<times> string option list) outcome" where
  "enter_debugger_calls E [] input s = Done ([], s, input)"
| "enter_debugger_calls E ((p, p_target, errcode, reason) # calls) input s =
    (case enter_debugger E p p_target errcode reason input s of
       Done (r, s1, rest) \<Rightarrow>
         (case enter_debugger_calls E calls rest s1 of
            Done (rs, s2, rest2) \<Rightarrow> Done (r # rs, s2, rest2)
          | Blocked \<Rightarrow> Blocked
          | ProcessExit \<Rightarrow> ProcessExit
          | Crashed \<Rightarrow> Crashed)
     | Blocked \<Rightarrow> Blocked
     | ProcessExit \<Rightarrow> ProcessExit
     | Crashed \<Rightarrow> Crashed)"

text \<open>
  A command body that leaves the quit state in place when it is started in it, and the
  same of every body the loop can reach that is not in the sources.
\<close>

definition keeps_quit_state :: "(string option \<Rightarrow> dbg_state \<Rightarrow> cmd_outcome) \<Rightarrow> bool" where
  "keeps_quit_state h =
    (\<forall>a s. in_debugger s = DEBUGGER_QUIT_RC \<longrightarrow>
       (case h a s of
          Returns r s' \<Rightarrow> in_debugger s' = DEBUGGER_QUIT_RC
        | Longjmps s' \<Rightarrow> in_debugger s' = DEBUGGER_QUIT_RC
        | Exits \<Rightarrow> True
        | Faults \<Rightarrow> True))"

definition handlers_keep_quit_state :: "externals \<Rightarrow> bool" where
  "handlers_keep_quit_state E =
    ((\<forall>c. keeps_quit_state (cmd_func E c))
     \<and> keeps_quit_state (dbg_cmd_step E) \<and> keeps_quit_state (dbg_cmd_quit E))"

text \<open>
  The six option flags the set command is bound to, and the option names with the minimum
  abbreviation lengths that \<^verbatim>\<open>dbg_cmd_set\<close> tests them with (set.h 87-116). A word
  resolves to an option when one of these tests accepts it.
\<close>

definition option_flags :: "dbg_state \<Rightarrow> int \<times> int \<times> int \<times> int \<times> int \<times> int" where
  "option_flags s =
    (basename_filenames s, db_level s, ignore_errors_flag s, keep_going_flag s,
     silent_flag s, no_shell_trace s)"

definition set_options :: "(string \<times> nat) list" where
  "set_options =
    [(''basename'', 4), (''debug'', 3), (''ignore-errors'', 3), (''keep-going'', 3),
     (''silent'', 3), (''trace'', 3)]"

definition resolves_to_option :: "string \<Rightarrow> bool" where
  "resolves_to_option w = list_ex (\<lambda>(name, i_min). is_abbrev_of w name i_min) set_options"

subsection \<open>A concrete state and concrete command bodies, for the examples\<close>

text \<open>
  A process in which nothing is set: the debugger inactive, no counted step, no trace
  flag on any target, top level, an empty variable table.
\<close>

definition example_state :: dbg_state where
  "example_state =
    \<lparr>last_stop_reason = DEBUG_BRKPT_AFTER_CMD, in_debugger = DBG_FALSE,
     i_debugger_stepping = 0, i_debugger_nexting = 0, debugger_on_error = False,
     makelevel = 0, use_readline_flag = False, b_init = False, b_readline_init = False,
     file2lines_ht_size = 0, tracing = (\<lambda>f. BRK_NONE), file_name = (\<lambda>f. ''all''),
     node_target = (\<lambda>n. None), p_target_loc = None, psz_target_name = [],
     i_stack_pos = 0, p_stack = None, p_stack_top = None, p_floc_stack = None,
     p_stack_floc_top = None, history = [], terminal = [],
     basename_filenames = 0, db_level = 0, ignore_errors_flag = 0, keep_going_flag = 0,
     silent_flag = 0, no_shell_trace = 0, variables = Map.empty\<rparr>"

text \<open>The same process with one variable, FOO, bound by a makefile to the text old.\<close>

definition foo_state :: dbg_state where
  "foo_state =
    example_state\<lparr>variables :=
      [''FOO'' \<mapsto> \<lparr>v_value = ''old'', v_origin = o_file, v_fileinfo = 0\<rparr>]\<rparr>"

text \<open>
  Command bodies that change nothing: every registered command and the step command
  resume the build, quit ends the process, no text is a number, expansion is the identity.
\<close>

definition idle_externals :: externals where
  "idle_externals =
    \<lparr>cmd_func = (\<lambda>c a s. Returns continue_execution s),
     dbg_cmd_step = (\<lambda>a s. Returns continue_execution s),
     dbg_cmd_quit = (\<lambda>a s. Exits),
     get_int = (\<lambda>a. None),
     variable_expand = (\<lambda>a s. a)\<rparr>"

section \<open>Properties\<close>

subsection \<open>The decision and the prologue\<close>

lemma decision_counted_resume:
  assumes "in_debugger s \<noteq> DEBUGGER_QUIT_RC" "1 < i_debugger_stepping s"
    "i_debugger_nexting s = 0" "tracing s t = 0"
  shows "enter_decision (Some t) errcode reason s =
    Resumed (s\<lparr>last_stop_reason := reason, i_debugger_stepping := i_debugger_stepping s - 1\<rparr>)"
  using assms by (simp add: enter_decision_def stop_check_def Let_def)

lemma decision_last_step_engages:
  assumes "in_debugger s \<noteq> DEBUGGER_QUIT_RC" "i_debugger_stepping s = 1"
    "i_debugger_nexting s = 0"
  shows "enter_decision (Some t) errcode reason s = Engaged (s\<lparr>last_stop_reason := reason\<rparr>)"
  using assms by (simp add: enter_decision_def stop_check_def Let_def)

lemma decision_Engaged_fields:
  assumes "enter_decision p_target errcode reason s = Engaged s1"
  shows "last_stop_reason s1 = reason" and "tracing s1 = tracing s"
  using assms
  by (auto simp: enter_decision_def stop_check_def Let_def split: if_splits option.splits)

lemma clear_temporary_tracing:
  "tracing (clear_temporary (Some t) s) t =
    (if tracing s t AND BRK_TEMP \<noteq> 0
        \<and> last_stop_reason s \<in> {DEBUG_BRKPT_AFTER_CMD, DEBUG_BRKPT_BEFORE_PREREQ,
                                 DEBUG_BRKPT_AFTER_PREREQ}
     then BRK_NONE else tracing s t)"
  by (simp add: clear_temporary_def split: debug_enter_reason_t.split)

lemma engage_setup_tracing:
  "tracing (engage_setup p p_target errcode reason s) = tracing (clear_temporary p_target s)"
  by (simp add: engage_setup_def print_debugger_location_def error_banner_def dbg_msg_def
      set_frame_position_def lazy_init_def Let_def split: option.split)

text \<open>
  C1, as the code has it. Started with a step count of 3, no next count and no trace flag
  on the frame, the first two calls resume silently and leave the step counter at 2, then
  1; the third call engages, with the counter still 1: its prologue ends in the state the
  loop starts in, and with no input to read the call waits at the prompt. The counter
  never reaches 0 by a silent resume.
\<close>

theorem step3_stops_at_third_engagement:
  assumes "in_debugger s \<noteq> DEBUGGER_QUIT_RC" and "i_debugger_stepping s = 3"
    and "i_debugger_nexting s = 0" and "tracing s t = 0"
  shows "enter_debugger E pa (Some t) ea ra ina s =
           Done (continue_execution,
                 s\<lparr>last_stop_reason := ra, i_debugger_stepping := 2\<rparr>, ina)
       \<and> enter_debugger E pb (Some t) eb rb inb
             (s\<lparr>last_stop_reason := ra, i_debugger_stepping := 2\<rparr>) =
           Done (continue_execution,
                 s\<lparr>last_stop_reason := rb, i_debugger_stepping := 1\<rparr>, inb)
       \<and> enter_prologue pc (Some t) ec rc
             (s\<lparr>last_stop_reason := rb, i_debugger_stepping := 1\<rparr>) =
           Engaged (engage_setup pc (Some t) ec rc
                      (s\<lparr>i_debugger_stepping := 1, last_stop_reason := rc\<rparr>))
       \<and> enter_debugger E pc (Some t) ec rc []
             (s\<lparr>last_stop_reason := rb, i_debugger_stepping := 1\<rparr>) = Blocked"
  using assms
  by (simp add: enter_debugger_def enter_prologue_def decision_counted_resume
      decision_last_step_engages)

theorem step3_stops_at_third_engagement_witness:
  "in_debugger (example_state\<lparr>i_debugger_stepping := 3\<rparr>) \<noteq> DEBUGGER_QUIT_RC
   \<and> i_debugger_stepping (example_state\<lparr>i_debugger_stepping := 3\<rparr>) = 3
   \<and> i_debugger_nexting (example_state\<lparr>i_debugger_stepping := 3\<rparr>) = 0
   \<and> tracing (example_state\<lparr>i_debugger_stepping := 3\<rparr>) 0 = 0
   \<and> enter_debugger idle_externals None (Some 0) 0 DEBUG_BRKPT_BEFORE_PREREQ []
        (example_state\<lparr>i_debugger_stepping := 3\<rparr>) =
      Done (continue_execution,
            example_state\<lparr>last_stop_reason := DEBUG_BRKPT_BEFORE_PREREQ,
                           i_debugger_stepping := 2\<rparr>, [])
   \<and> enter_debugger idle_externals None (Some 0) 0 DEBUG_BRKPT_BEFORE_PREREQ []
        (example_state\<lparr>last_stop_reason := DEBUG_BRKPT_BEFORE_PREREQ,
                       i_debugger_stepping := 2\<rparr>) =
      Done (continue_execution,
            example_state\<lparr>last_stop_reason := DEBUG_BRKPT_BEFORE_PREREQ,
                           i_debugger_stepping := 1\<rparr>, [])
   \<and> enter_debugger idle_externals None (Some 0) 0 DEBUG_BRKPT_BEFORE_PREREQ []
        (example_state\<lparr>last_stop_reason := DEBUG_BRKPT_BEFORE_PREREQ,
                       i_debugger_stepping := 1\<rparr>) = Blocked"
  using step3_stops_at_third_engagement
    [where s = "example_state\<lparr>i_debugger_stepping := 3\<rparr>" and t = 0
       and E = idle_externals and pa = None and pb = None and pc = None
       and ea = 0 and eb = 0 and ec = 0
       and ra = DEBUG_BRKPT_BEFORE_PREREQ and rb = DEBUG_BRKPT_BEFORE_PREREQ
       and rc = DEBUG_BRKPT_BEFORE_PREREQ and ina = "[]" and inb = "[]"]
  by (simp add: example_state_def BRK_NONE_def)

text \<open>
  C1 as the spec states it fails: after the two silent resumes the third call does not
  resume with the counter at 0. It engages, and the counter is still 1.
\<close>

theorem step3_third_call_is_no_silent_resume:
  "enter_prologue None (Some 0) 0 DEBUG_BRKPT_BEFORE_PREREQ
     (example_state\<lparr>i_debugger_stepping := 3\<rparr>) =
     Resumed (example_state\<lparr>last_stop_reason := DEBUG_BRKPT_BEFORE_PREREQ,
                            i_debugger_stepping := 2\<rparr>)
   \<and> enter_prologue None (Some 0) 0 DEBUG_BRKPT_BEFORE_PREREQ
     (example_state\<lparr>last_stop_reason := DEBUG_BRKPT_BEFORE_PREREQ,
                    i_debugger_stepping := 2\<rparr>) =
     Resumed (example_state\<lparr>last_stop_reason := DEBUG_BRKPT_BEFORE_PREREQ,
                            i_debugger_stepping := 1\<rparr>)
   \<and> enter_prologue None (Some 0) 0 DEBUG_BRKPT_BEFORE_PREREQ
     (example_state\<lparr>last_stop_reason := DEBUG_BRKPT_BEFORE_PREREQ,
                    i_debugger_stepping := 1\<rparr>) =
     Engaged (engage_setup None (Some 0) 0 DEBUG_BRKPT_BEFORE_PREREQ
       (example_state\<lparr>last_stop_reason := DEBUG_BRKPT_BEFORE_PREREQ,
                      i_debugger_stepping := 1\<rparr>))
   \<and> i_debugger_stepping (engage_setup None (Some 0) 0 DEBUG_BRKPT_BEFORE_PREREQ
       (example_state\<lparr>last_stop_reason := DEBUG_BRKPT_BEFORE_PREREQ,
                      i_debugger_stepping := 1\<rparr>)) = 1"
  by (simp add: enter_prologue_def enter_decision_def stop_check_def Let_def
      example_state_def BRK_NONE_def engage_setup_def print_debugger_location_def
      error_banner_def dbg_msg_def set_frame_position_def lazy_init_def clear_temporary_def)

text \<open>
  C10. When the one-shot clearing fires (the call engages, the temporary flag is set and
  the reason is after-command, before-prerequisite or after-prerequisite) the whole
  tracing field of the frame is \<^verbatim>\<open>BRK_NONE\<close> when the loop starts: every bit of it is
  erased, a persistent one as well as the temporary one.
\<close>

theorem temporary_clear_erases_whole_field:
  assumes "enter_prologue p (Some t) errcode reason s = Engaged s'"
    and "tracing s t AND BRK_TEMP \<noteq> 0"
    and "reason = DEBUG_BRKPT_AFTER_CMD \<or> reason = DEBUG_BRKPT_BEFORE_PREREQ
         \<or> reason = DEBUG_BRKPT_AFTER_PREREQ"
  shows "tracing s' t = BRK_NONE \<and> tracing s' t AND bits = 0"
proof -
  from assms(1) obtain s1 where d: "enter_decision (Some t) errcode reason s = Engaged s1"
    and s': "s' = engage_setup p (Some t) errcode reason s1"
    by (auto simp: enter_prologue_def split: entry.splits)
  from decision_Engaged_fields [OF d] assms(2,3) s'
  have "tracing s' t = BRK_NONE"
    by (auto simp: engage_setup_tracing clear_temporary_tracing)
  then show ?thesis by (simp add: BRK_NONE_def)
qed

theorem temporary_clear_erases_whole_field_witness:
  "enter_prologue None (Some 0) 0 DEBUG_BRKPT_AFTER_CMD
     (example_state\<lparr>tracing := (\<lambda>f. BRK_TEMP OR 0x04)\<rparr>) =
     Engaged (engage_setup None (Some 0) 0 DEBUG_BRKPT_AFTER_CMD
       (example_state\<lparr>tracing := (\<lambda>f. BRK_TEMP OR 0x04)\<rparr>))
   \<and> tracing (example_state\<lparr>tracing := (\<lambda>f. BRK_TEMP OR 0x04)\<rparr>) 0 AND BRK_TEMP \<noteq> 0
   \<and> tracing (example_state\<lparr>tracing := (\<lambda>f. BRK_TEMP OR 0x04)\<rparr>) 0 AND 0x04 \<noteq> 0
   \<and> tracing (engage_setup None (Some 0) 0 DEBUG_BRKPT_AFTER_CMD
       (example_state\<lparr>tracing := (\<lambda>f. BRK_TEMP OR 0x04)\<rparr>)) 0 = BRK_NONE
   \<and> tracing (engage_setup None (Some 0) 0 DEBUG_BRKPT_AFTER_CMD
       (example_state\<lparr>tracing := (\<lambda>f. BRK_TEMP OR 0x04)\<rparr>)) 0 AND 0x04 = 0"
proof -
  have engaged: "enter_prologue None (Some 0) 0 DEBUG_BRKPT_AFTER_CMD
     (example_state\<lparr>tracing := (\<lambda>f. BRK_TEMP OR 0x04)\<rparr>) =
     Engaged (engage_setup None (Some 0) 0 DEBUG_BRKPT_AFTER_CMD
       (example_state\<lparr>tracing := (\<lambda>f. BRK_TEMP OR 0x04)\<rparr>))"
    by (simp add: enter_prologue_def enter_decision_def stop_check_def example_state_def
        BRK_TEMP_def)
  have temp: "tracing (example_state\<lparr>tracing := (\<lambda>f. BRK_TEMP OR 0x04)\<rparr>) 0 AND BRK_TEMP \<noteq> 0"
    by (simp add: BRK_TEMP_def)
  have other: "tracing (example_state\<lparr>tracing := (\<lambda>f. BRK_TEMP OR 0x04)\<rparr>) 0 AND 0x04 \<noteq> 0"
    by (simp add: BRK_TEMP_def)
  from temporary_clear_erases_whole_field [OF engaged temp, of "0x04"] engaged temp other
  show ?thesis by (simp add: BRK_NONE_def)
qed

lemma decision_on_untraced_frame:
  assumes "tracing s t = 0" and "in_debugger s \<noteq> DEBUGGER_QUIT_RC"
  shows "enter_decision (Some t) errcode reason s =
    (if 1 < i_debugger_stepping s \<or> 1 < i_debugger_nexting s then
       Resumed (s\<lparr>last_stop_reason := reason,
                  i_debugger_stepping :=
                    (if i_debugger_stepping s = 0 then 0 else i_debugger_stepping s - 1),
                  i_debugger_nexting :=
                    (if i_debugger_nexting s = 0 then 0 else i_debugger_nexting s - 1)\<rparr>)
     else if i_debugger_stepping s = 0 \<and> i_debugger_nexting s = 0
             \<and> \<not> debugger_on_error s \<and> errcode \<noteq> - 2
       then Resumed (s\<lparr>last_stop_reason := reason\<rparr>)
     else Engaged (s\<lparr>last_stop_reason := reason\<rparr>))"
  using assms by (simp add: enter_decision_def stop_check_def Let_def)

lemma decision_Resumed_frame:
  assumes "enter_decision p_target errcode reason s = Resumed s1"
  shows "s1\<lparr>last_stop_reason := last_stop_reason s,
            i_debugger_stepping := i_debugger_stepping s,
            i_debugger_nexting := i_debugger_nexting s\<rparr> = s"
    and "last_stop_reason s1 = reason"
  using assms
  by (auto simp: enter_decision_def stop_check_def Let_def split: if_splits option.splits)

lemma decision_Engaged_makelevel:
  assumes "enter_decision p_target errcode reason s = Engaged s1"
  shows "makelevel s1 = makelevel s"
  using assms
  by (auto simp: enter_decision_def stop_check_def Let_def split: if_splits option.splits)

lemma prologue_Engaged_tracing:
  assumes "enter_prologue p (Some t) errcode reason s = Engaged s'"
  shows "tracing s' t =
    (if tracing s t AND BRK_TEMP \<noteq> 0
        \<and> reason \<in> {DEBUG_BRKPT_AFTER_CMD, DEBUG_BRKPT_BEFORE_PREREQ,
                     DEBUG_BRKPT_AFTER_PREREQ}
     then BRK_NONE else tracing s t)"
proof -
  from assms obtain s1 where d: "enter_decision (Some t) errcode reason s = Engaged s1"
    and s': "s' = engage_setup p (Some t) errcode reason s1"
    by (auto simp: enter_prologue_def split: entry.splits)
  from decision_Engaged_fields [OF d] s' show ?thesis
    by (simp add: engage_setup_tracing clear_temporary_tracing)
qed

text \<open>
  C8, as the code has it. When the decision is to resume silently the call returns
  \<^verbatim>\<open>continue_execution\<close> at once, with the input untouched and nothing written to the
  terminal. The reason is recorded as the last stop reason all the same (line 409 comes
  before the decision), and in the counted case each active counter is one less; no
  other part of the state changes.
\<close>

theorem silent_resume_records_reason_only:
  assumes "enter_decision p_target errcode reason s = Resumed s1"
  shows "enter_debugger E p p_target errcode reason input s =
           Done (continue_execution, s1, input)
       \<and> last_stop_reason s1 = reason
       \<and> s1\<lparr>last_stop_reason := last_stop_reason s,
              i_debugger_stepping := i_debugger_stepping s,
              i_debugger_nexting := i_debugger_nexting s\<rparr> = s
       \<and> i_debugger_stepping s1 =
           (if in_debugger s \<noteq> DEBUGGER_QUIT_RC
               \<and> (1 < i_debugger_stepping s \<or> 1 < i_debugger_nexting s)
               \<and> i_debugger_stepping s \<noteq> 0
            then i_debugger_stepping s - 1 else i_debugger_stepping s)
       \<and> i_debugger_nexting s1 =
           (if in_debugger s \<noteq> DEBUGGER_QUIT_RC
               \<and> (1 < i_debugger_stepping s \<or> 1 < i_debugger_nexting s)
               \<and> i_debugger_nexting s \<noteq> 0
            then i_debugger_nexting s - 1 else i_debugger_nexting s)"
proof -
  have counters: "i_debugger_stepping s1 =
           (if in_debugger s \<noteq> DEBUGGER_QUIT_RC
               \<and> (1 < i_debugger_stepping s \<or> 1 < i_debugger_nexting s)
               \<and> i_debugger_stepping s \<noteq> 0
            then i_debugger_stepping s - 1 else i_debugger_stepping s)
       \<and> i_debugger_nexting s1 =
           (if in_debugger s \<noteq> DEBUGGER_QUIT_RC
               \<and> (1 < i_debugger_stepping s \<or> 1 < i_debugger_nexting s)
               \<and> i_debugger_nexting s \<noteq> 0
            then i_debugger_nexting s - 1 else i_debugger_nexting s)"
    using assms
    by (auto simp: enter_decision_def stop_check_def Let_def split: if_splits option.splits)
  with assms decision_Resumed_frame [OF assms] show ?thesis
    by (simp add: enter_debugger_def enter_prologue_def)
qed

theorem silent_resume_records_reason_only_witness:
  "enter_decision (Some 0) 0 DEBUG_ERROR_HIT (example_state\<lparr>i_debugger_nexting := 2\<rparr>) =
      Resumed (example_state\<lparr>last_stop_reason := DEBUG_ERROR_HIT, i_debugger_nexting := 1\<rparr>)
   \<and> enter_debugger idle_externals None (Some 0) 0 DEBUG_ERROR_HIT [Some ''quit'']
        (example_state\<lparr>i_debugger_nexting := 2\<rparr>) =
      Done (continue_execution,
            example_state\<lparr>last_stop_reason := DEBUG_ERROR_HIT, i_debugger_nexting := 1\<rparr>,
            [Some ''quit''])"
proof -
  have resumed: "enter_decision (Some 0) 0 DEBUG_ERROR_HIT
      (example_state\<lparr>i_debugger_nexting := 2\<rparr>) =
      Resumed (example_state\<lparr>last_stop_reason := DEBUG_ERROR_HIT, i_debugger_nexting := 1\<rparr>)"
    by (simp add: enter_decision_def stop_check_def example_state_def BRK_NONE_def)
  from silent_resume_records_reason_only [OF resumed, of idle_externals None "[Some ''quit'']"]
    resumed
  show ?thesis by simp
qed

text \<open>
  C8 as the spec states it fails: a call that resumes silently has overwritten the last
  stop reason.
\<close>

theorem silent_resume_overwrites_last_stop_reason:
  "enter_debugger idle_externals None (Some 0) 0 DEBUG_ERROR_HIT [] example_state =
     Done (continue_execution, example_state\<lparr>last_stop_reason := DEBUG_ERROR_HIT\<rparr>, [])
   \<and> last_stop_reason example_state = DEBUG_BRKPT_AFTER_CMD
   \<and> last_stop_reason (example_state\<lparr>last_stop_reason := DEBUG_ERROR_HIT\<rparr>)
       \<noteq> last_stop_reason example_state"
  by (simp add: enter_debugger_def enter_prologue_def enter_decision_def stop_check_def
      example_state_def BRK_NONE_def)

text \<open>
  C6, as the code has it. Whenever the debugger engages on a frame whose temporary flag
  is set: for the reasons after-command, before-prerequisite and after-prerequisite the
  flag is cleared when the loop starts, and a later call on that frame for the same
  reason (its tracing field as the engagement left it, the debugger not in the quit
  state) is no longer stopped by the flag. It is decided by the two counters together
  with the stop-on-error setting and the termination code: a counter above 1 skips the
  call; with both counters 0, stop-on-error off and another error code the call resumes
  silently; otherwise it engages. For every other reason the field is as it was, the
  flag still set.
\<close>

theorem temporary_breakpoint_is_one_shot:
  assumes "enter_prologue p (Some t) errcode reason s = Engaged s'"
    and "tracing s t AND BRK_TEMP \<noteq> 0"
  shows "(reason \<in> {DEBUG_BRKPT_AFTER_CMD, DEBUG_BRKPT_BEFORE_PREREQ, DEBUG_BRKPT_AFTER_PREREQ}
            \<longrightarrow> tracing s' t AND BRK_TEMP = 0
              \<and> (tracing s_later t = tracing s' t \<and> in_debugger s_later \<noteq> DEBUGGER_QUIT_RC
                   \<longrightarrow> enter_decision (Some t) errcode_later reason s_later =
                     (if 1 < i_debugger_stepping s_later \<or> 1 < i_debugger_nexting s_later then
                        Resumed (s_later\<lparr>last_stop_reason := reason,
                          i_debugger_stepping :=
                            (if i_debugger_stepping s_later = 0 then 0
                             else i_debugger_stepping s_later - 1),
                          i_debugger_nexting :=
                            (if i_debugger_nexting s_later = 0 then 0
                             else i_debugger_nexting s_later - 1)\<rparr>)
                      else if i_debugger_stepping s_later = 0 \<and> i_debugger_nexting s_later = 0
                              \<and> \<not> debugger_on_error s_later \<and> errcode_later \<noteq> - 2
                        then Resumed (s_later\<lparr>last_stop_reason := reason\<rparr>)
                      else Engaged (s_later\<lparr>last_stop_reason := reason\<rparr>))))
       \<and> (reason \<notin> {DEBUG_BRKPT_AFTER_CMD, DEBUG_BRKPT_BEFORE_PREREQ, DEBUG_BRKPT_AFTER_PREREQ}
            \<longrightarrow> tracing s' t = tracing s t \<and> tracing s' t AND BRK_TEMP \<noteq> 0)"
proof (intro conjI impI)
  assume r: "reason \<in> {DEBUG_BRKPT_AFTER_CMD, DEBUG_BRKPT_BEFORE_PREREQ, DEBUG_BRKPT_AFTER_PREREQ}"
  with prologue_Engaged_tracing [OF assms(1)] assms(2)
  have cleared: "tracing s' t = 0" by (simp add: BRK_NONE_def)
  then show "tracing s' t AND BRK_TEMP = 0" by simp
  assume "tracing s_later t = tracing s' t \<and> in_debugger s_later \<noteq> DEBUGGER_QUIT_RC"
  with cleared have "tracing s_later t = 0" and "in_debugger s_later \<noteq> DEBUGGER_QUIT_RC" by simp_all
  then show "enter_decision (Some t) errcode_later reason s_later =
                     (if 1 < i_debugger_stepping s_later \<or> 1 < i_debugger_nexting s_later then
                        Resumed (s_later\<lparr>last_stop_reason := reason,
                          i_debugger_stepping :=
                            (if i_debugger_stepping s_later = 0 then 0
                             else i_debugger_stepping s_later - 1),
                          i_debugger_nexting :=
                            (if i_debugger_nexting s_later = 0 then 0
                             else i_debugger_nexting s_later - 1)\<rparr>)
                      else if i_debugger_stepping s_later = 0 \<and> i_debugger_nexting s_later = 0
                              \<and> \<not> debugger_on_error s_later \<and> errcode_later \<noteq> - 2
                        then Resumed (s_later\<lparr>last_stop_reason := reason\<rparr>)
                      else Engaged (s_later\<lparr>last_stop_reason := reason\<rparr>))"
    by (rule decision_on_untraced_frame)
next
  assume "reason \<notin> {DEBUG_BRKPT_AFTER_CMD, DEBUG_BRKPT_BEFORE_PREREQ, DEBUG_BRKPT_AFTER_PREREQ}"
  with prologue_Engaged_tracing [OF assms(1)] assms(2)
  show "tracing s' t = tracing s t" and "tracing s' t AND BRK_TEMP \<noteq> 0" by simp_all
qed

theorem temporary_breakpoint_is_one_shot_witness:
  "tracing (example_state\<lparr>tracing := (\<lambda>f. BRK_TEMP)\<rparr>) 0 AND BRK_TEMP \<noteq> 0
   \<and> enter_prologue None (Some 0) 0 DEBUG_BRKPT_AFTER_CMD
        (example_state\<lparr>tracing := (\<lambda>f. BRK_TEMP)\<rparr>) =
      Engaged (engage_setup None (Some 0) 0 DEBUG_BRKPT_AFTER_CMD
                 (example_state\<lparr>tracing := (\<lambda>f. BRK_TEMP)\<rparr>))
   \<and> tracing (engage_setup None (Some 0) 0 DEBUG_BRKPT_AFTER_CMD
                 (example_state\<lparr>tracing := (\<lambda>f. BRK_TEMP)\<rparr>)) 0 AND BRK_TEMP = 0
   \<and> tracing example_state 0 =
      tracing (engage_setup None (Some 0) 0 DEBUG_BRKPT_AFTER_CMD
                 (example_state\<lparr>tracing := (\<lambda>f. BRK_TEMP)\<rparr>)) 0
   \<and> in_debugger example_state \<noteq> DEBUGGER_QUIT_RC
   \<and> enter_decision (Some 0) 0 DEBUG_BRKPT_AFTER_CMD example_state = Resumed example_state
   \<and> enter_prologue None (Some 0) 0 DEBUG_ERROR_HIT
        (example_state\<lparr>tracing := (\<lambda>f. BRK_TEMP)\<rparr>) =
      Engaged (engage_setup None (Some 0) 0 DEBUG_ERROR_HIT
                 (example_state\<lparr>tracing := (\<lambda>f. BRK_TEMP),
                                last_stop_reason := DEBUG_ERROR_HIT\<rparr>))
   \<and> tracing (engage_setup None (Some 0) 0 DEBUG_ERROR_HIT
                 (example_state\<lparr>tracing := (\<lambda>f. BRK_TEMP),
                                last_stop_reason := DEBUG_ERROR_HIT\<rparr>)) 0 = BRK_TEMP"
proof -
  have temp: "tracing (example_state\<lparr>tracing := (\<lambda>f. BRK_TEMP)\<rparr>) 0 AND BRK_TEMP \<noteq> 0"
    by (simp add: BRK_TEMP_def)
  have after_cmd: "enter_prologue None (Some 0) 0 DEBUG_BRKPT_AFTER_CMD
        (example_state\<lparr>tracing := (\<lambda>f. BRK_TEMP)\<rparr>) =
      Engaged (engage_setup None (Some 0) 0 DEBUG_BRKPT_AFTER_CMD
                 (example_state\<lparr>tracing := (\<lambda>f. BRK_TEMP)\<rparr>))"
    by (simp add: enter_prologue_def enter_decision_def stop_check_def example_state_def
        BRK_TEMP_def)
  have on_error: "enter_prologue None (Some 0) 0 DEBUG_ERROR_HIT
        (example_state\<lparr>tracing := (\<lambda>f. BRK_TEMP)\<rparr>) =
      Engaged (engage_setup None (Some 0) 0 DEBUG_ERROR_HIT
                 (example_state\<lparr>tracing := (\<lambda>f. BRK_TEMP),
                                last_stop_reason := DEBUG_ERROR_HIT\<rparr>))"
    by (simp add: enter_prologue_def enter_decision_def stop_check_def example_state_def
        BRK_TEMP_def)
  have cleared: "tracing (engage_setup None (Some 0) 0 DEBUG_BRKPT_AFTER_CMD
                 (example_state\<lparr>tracing := (\<lambda>f. BRK_TEMP)\<rparr>)) 0 = BRK_NONE"
    by (simp add: engage_setup_tracing clear_temporary_tracing example_state_def BRK_TEMP_def)
  have same: "tracing example_state 0 =
      tracing (engage_setup None (Some 0) 0 DEBUG_BRKPT_AFTER_CMD
                 (example_state\<lparr>tracing := (\<lambda>f. BRK_TEMP)\<rparr>)) 0"
    unfolding cleared by (simp add: example_state_def)
  have active: "in_debugger example_state \<noteq> DEBUGGER_QUIT_RC"
    by (simp add: example_state_def)
  have fields: "i_debugger_stepping example_state = 0" "i_debugger_nexting example_state = 0"
    "\<not> debugger_on_error example_state"
    "example_state\<lparr>last_stop_reason := DEBUG_BRKPT_AFTER_CMD\<rparr> = example_state"
    by (simp_all add: example_state_def)
  from temporary_breakpoint_is_one_shot [OF after_cmd temp, where s_later = example_state
      and errcode_later = 0] same active fields
  have second: "enter_decision (Some 0) 0 DEBUG_BRKPT_AFTER_CMD example_state
      = Resumed example_state"
    by simp
  from temporary_breakpoint_is_one_shot [OF on_error temp]
    temp after_cmd on_error cleared same active second
  show ?thesis by (simp add: BRK_NONE_def)
qed

text \<open>
  C6 as the spec states it fails: the later call is not governed by the step and next
  state alone. On the cleared frame, with both counters 0 and the same reason, the call
  resumes silently when stop-on-error is off, engages when it is on, and engages on the
  termination code.
\<close>

theorem cleared_frame_decided_by_more_than_counters:
  "tracing (engage_setup None (Some 0) 0 DEBUG_BRKPT_AFTER_CMD
             (example_state\<lparr>tracing := (\<lambda>f. BRK_TEMP)\<rparr>)) 0 = BRK_NONE
   \<and> tracing example_state 0 = BRK_NONE
   \<and> tracing (example_state\<lparr>debugger_on_error := True\<rparr>) 0 = BRK_NONE
   \<and> i_debugger_stepping (example_state\<lparr>debugger_on_error := True\<rparr>)
       = i_debugger_stepping example_state
   \<and> i_debugger_nexting (example_state\<lparr>debugger_on_error := True\<rparr>)
       = i_debugger_nexting example_state
   \<and> enter_debugger idle_externals None (Some 0) 0 DEBUG_BRKPT_AFTER_CMD [] example_state =
       Done (continue_execution, example_state, [])
   \<and> enter_debugger idle_externals None (Some 0) 0 DEBUG_BRKPT_AFTER_CMD []
        (example_state\<lparr>debugger_on_error := True\<rparr>) = Blocked
   \<and> enter_debugger idle_externals None (Some 0) (- 2) DEBUG_BRKPT_AFTER_CMD []
        example_state = Blocked"
  by (simp add: enter_debugger_def enter_prologue_def enter_decision_def stop_check_def
      engage_setup_tracing clear_temporary_tracing example_state_def BRK_NONE_def BRK_TEMP_def)

subsection \<open>The quit state\<close>

lemma fold_help_in_debugger:
  "in_debugger (fold (dbg_help_subcmd_entry c) xs s) = in_debugger s"
  by (induction xs arbitrary: s) (simp_all add: dbg_help_subcmd_entry_def dbg_msg_def)

lemma set_var_in_debugger: "in_debugger (snd (dbg_cmd_set_var E a expand s)) = in_debugger s"
  by (simp add: dbg_cmd_set_var_def set_var_define_def define_variable_in_set_def dbg_msg_def
      Let_def split: option.split prod.split)

lemma set_in_debugger: "in_debugger (snd (dbg_cmd_set E a s)) = in_debugger s"
  by (simp add: dbg_cmd_set_def fold_help_in_debugger set_var_in_debugger dbg_cmd_show_def
      dbg_msg_def Let_def split: option.split prod.split)

lemma keeps_quit_stateD:
  assumes "keeps_quit_state h" and "in_debugger s = DEBUGGER_QUIT_RC"
  shows "h a s = Returns r s' \<Longrightarrow> in_debugger s' = DEBUGGER_QUIT_RC"
    and "h a s = Longjmps s' \<Longrightarrow> in_debugger s' = DEBUGGER_QUIT_RC"
proof -
  from assms have "case h a s of
             Returns r s' \<Rightarrow> in_debugger s' = DEBUGGER_QUIT_RC
           | Longjmps s' \<Rightarrow> in_debugger s' = DEBUGGER_QUIT_RC
           | Exits \<Rightarrow> True
           | Faults \<Rightarrow> True"
    unfolding keeps_quit_state_def by blast
  then show "h a s = Returns r s' \<Longrightarrow> in_debugger s' = DEBUGGER_QUIT_RC"
    and "h a s = Longjmps s' \<Longrightarrow> in_debugger s' = DEBUGGER_QUIT_RC"
    by simp_all
qed

lemma short_command_keeps_quit_state:
  assumes "handlers_keep_quit_state E" and "short_command_func E s c = Some func"
  shows "keeps_quit_state func"
proof (cases "c = CHR ''=''")
  case True
  with assms(2) have "func = (\<lambda>a s'. case dbg_cmd_set E a s' of (r, s'') \<Rightarrow> Returns r s'')"
    by (simp add: short_command_func_def split: if_splits)
  then show ?thesis
    using set_in_debugger [of E]
    by (auto simp: keeps_quit_state_def split: prod.split) (metis snd_conv)
next
  case False
  with assms(2) have "func = cmd_func E c"
    by (simp add: short_command_func_def split: if_splits)
  with assms(1) show ?thesis by (simp add: handlers_keep_quit_state_def)
qed

lemma execute_line_keeps_quit_state:
  assumes "handlers_keep_quit_state E" and "in_debugger s = DEBUGGER_QUIT_RC"
  shows "execute_line E l s = Returns r s' \<Longrightarrow> in_debugger s' = DEBUGGER_QUIT_RC"
    and "execute_line E l s = Longjmps s' \<Longrightarrow> in_debugger s' = DEBUGGER_QUIT_RC"
  using keeps_quit_stateD [OF short_command_keeps_quit_state [OF assms(1)] assms(2)] assms(2)
  by (auto simp: execute_line_def dbg_msg_def split: prod.splits option.splits)

lemma loop_body_keeps_quit_state:
  assumes "handlers_keep_quit_state E" and "in_debugger s = DEBUGGER_QUIT_RC"
  shows "loop_body E line s = Returns r s' \<Longrightarrow> in_debugger s' = DEBUGGER_QUIT_RC"
    and "loop_body E line s = Longjmps s' \<Longrightarrow> in_debugger s' = DEBUGGER_QUIT_RC"
proof -
  from assms(1) have st: "keeps_quit_state (dbg_cmd_step E)"
    and qu: "keeps_quit_state (dbg_cmd_quit E)"
    by (simp_all add: handlers_keep_quit_state_def)
  have hist: "\<And>t. in_debugger (add_history t s) = DEBUGGER_QUIT_RC"
    using assms(2) by (simp add: add_history_def)
  show "loop_body E line s = Returns r s' \<Longrightarrow> in_debugger s' = DEBUGGER_QUIT_RC"
    using execute_line_keeps_quit_state(1) [OF assms(1) hist]
      keeps_quit_stateD(1) [OF st hist] keeps_quit_stateD(1) [OF qu assms(2)]
    by (fastforce simp: loop_body_def Let_def split: option.splits if_splits cmd_outcome.splits)
  show "loop_body E line s = Longjmps s' \<Longrightarrow> in_debugger s' = DEBUGGER_QUIT_RC"
    using execute_line_keeps_quit_state(2) [OF assms(1) hist]
      keeps_quit_stateD(2) [OF st hist] keeps_quit_stateD(2) [OF qu assms(2)]
    by (fastforce simp: loop_body_def Let_def split: option.splits if_splits cmd_outcome.splits)
qed

lemma read_loop_keeps_quit_state:
  assumes "handlers_keep_quit_state E"
  shows "in_debugger s = DEBUGGER_QUIT_RC \<Longrightarrow> read_loop E input s = Done (r, s', rest)
    \<Longrightarrow> in_debugger s' = DEBUGGER_QUIT_RC"
proof (induction input arbitrary: s)
  case Nil
  then show ?case by simp
next
  case (Cons line input)
  from Cons.prems(1) have pq: "in_debugger (dbg_msg (prompt s) s) = DEBUGGER_QUIT_RC"
    by (simp add: dbg_msg_def)
  show ?case
  proof (cases "loop_body E line (dbg_msg (prompt s) s)")
    case (Returns r1 s1)
    from loop_body_keeps_quit_state(1) [OF assms pq Returns]
    have q1: "in_debugger s1 = DEBUGGER_QUIT_RC" .
    show ?thesis
    proof (cases "r1 = debug_readloop \<or> r1 = debug_cmd_error")
      case True
      with Cons.prems(2) Returns have "read_loop E input s1 = Done (r, s', rest)" by simp
      from Cons.IH [OF q1 this] show ?thesis .
    next
      case False
      with Cons.prems(2) Returns q1 show ?thesis by simp
    qed
  next
    case (Longjmps s1)
    from loop_body_keeps_quit_state(2) [OF assms pq Longjmps]
    have q1: "in_debugger (dbg_msg ''Internal error jumped back to debugger loop'' s1)
        = DEBUGGER_QUIT_RC"
      by (simp add: dbg_msg_def)
    from Cons.prems(2) Longjmps
    have "read_loop E input (dbg_msg ''Internal error jumped back to debugger loop'' s1)
            = Done (r, s', rest)" by simp
    from Cons.IH [OF q1 this] show ?thesis .
  next
    case Exits
    with Cons.prems(2) show ?thesis by simp
  next
    case Faults
    with Cons.prems(2) show ?thesis by simp
  qed
qed

lemma engage_setup_termination_nested:
  "makelevel s \<noteq> 0 \<Longrightarrow>
     in_debugger (engage_setup p p_target (- 2) reason s) = DEBUGGER_QUIT_RC"
  by (simp add: engage_setup_def print_debugger_location_def error_banner_def dbg_msg_def
      set_frame_position_def lazy_init_def clear_temporary_def Let_def
      split: option.split debug_enter_reason_t.split)

lemma enter_debugger_in_quit_state:
  "in_debugger s = DEBUGGER_QUIT_RC \<Longrightarrow>
     enter_debugger E p p_target errcode reason input s =
       Done (continue_execution, s\<lparr>last_stop_reason := reason\<rparr>, input)"
  by (simp add: enter_debugger_def enter_prologue_def enter_decision_def)

lemma calls_in_quit_state:
  "in_debugger s = DEBUGGER_QUIT_RC \<Longrightarrow>
     enter_debugger_calls E calls input s =
       Done (replicate (length calls) continue_execution,
             fold (\<lambda>c s. s\<lparr>last_stop_reason := snd (snd (snd c))\<rparr>) calls s, input)
     \<and> in_debugger (fold (\<lambda>c s. s\<lparr>last_stop_reason := snd (snd (snd c))\<rparr>) calls s)
         = DEBUGGER_QUIT_RC"
proof (induction calls arbitrary: s)
  case Nil
  then show ?case by simp
next
  case (Cons c calls)
  obtain p t e r where c: "c = (p, t, e, r)" by (cases c) auto
  from Cons.prems have q: "in_debugger (s\<lparr>last_stop_reason := r\<rparr>) = DEBUGGER_QUIT_RC" by simp
  from Cons.IH [OF q] Cons.prems c show ?case
    by (simp add: enter_debugger_in_quit_state)
qed

text \<open>
  C5, as the code has it. When a call with the termination code \<^verbatim>\<open>-2\<close> engages at a
  nested level the debugger is in the quit state when its loop starts, and still is when
  the call returns, as long as no command body takes it out of that state. Once in the
  quit state every later call returns \<^verbatim>\<open>continue_execution\<close> at once, reads no input
  and leaves the quit state in place: a list of calls returns that signal once per call.
\<close>

theorem quit_state_forced_when_engaged_and_absorbing:
  assumes "handlers_keep_quit_state E"
  shows "(enter_prologue p p_target (- 2) reason s = Engaged s1 \<and> makelevel s \<noteq> 0
            \<longrightarrow> in_debugger s1 = DEBUGGER_QUIT_RC
              \<and> (enter_debugger E p p_target (- 2) reason input s = Done (r, s2, rest)
                   \<longrightarrow> in_debugger s2 = DEBUGGER_QUIT_RC))
       \<and> (in_debugger s = DEBUGGER_QUIT_RC
            \<longrightarrow> enter_debugger_calls E calls input s =
                  Done (replicate (length calls) continue_execution,
                        fold (\<lambda>c s. s\<lparr>last_stop_reason := snd (snd (snd c))\<rparr>) calls s,
                        input)
              \<and> in_debugger (fold (\<lambda>c s. s\<lparr>last_stop_reason := snd (snd (snd c))\<rparr>) calls s)
                  = DEBUGGER_QUIT_RC)"
proof (intro conjI impI)
  assume a: "enter_prologue p p_target (- 2) reason s = Engaged s1 \<and> makelevel s \<noteq> 0"
  then obtain s0 where d: "enter_decision p_target (- 2) reason s = Engaged s0"
    and s1: "s1 = engage_setup p p_target (- 2) reason s0"
    by (auto simp: enter_prologue_def split: entry.splits)
  from a decision_Engaged_makelevel [OF d] have "makelevel s0 \<noteq> 0" by simp
  with s1 show q: "in_debugger s1 = DEBUGGER_QUIT_RC"
    by (simp add: engage_setup_termination_nested)
  assume ret: "enter_debugger E p p_target (- 2) reason input s = Done (r, s2, rest)"
  with a obtain s3 where loop: "read_loop E input s1 = Done (r, s3, rest)"
    and s2: "s2 = (if in_debugger s3 \<noteq> DEBUGGER_QUIT_RC
                   then s3\<lparr>in_debugger := DBG_FALSE\<rparr> else s3)"
    by (auto simp: enter_debugger_def split: outcome.splits)
  from read_loop_keeps_quit_state [OF assms q loop] s2
  show "in_debugger s2 = DEBUGGER_QUIT_RC" by simp
next
  assume "in_debugger s = DEBUGGER_QUIT_RC"
  from calls_in_quit_state [OF this]
  show "enter_debugger_calls E calls input s =
                  Done (replicate (length calls) continue_execution,
                        fold (\<lambda>c s. s\<lparr>last_stop_reason := snd (snd (snd c))\<rparr>) calls s,
                        input)"
    and "in_debugger (fold (\<lambda>c s. s\<lparr>last_stop_reason := snd (snd (snd c))\<rparr>) calls s)
                  = DEBUGGER_QUIT_RC"
    by simp_all
qed

theorem quit_state_forced_when_engaged_and_absorbing_witness:
  "handlers_keep_quit_state idle_externals
   \<and> enter_prologue None (Some 0) (- 2) DEBUG_BRKPT_AFTER_CMD (example_state\<lparr>makelevel := 1\<rparr>) =
       Engaged (engage_setup None (Some 0) (- 2) DEBUG_BRKPT_AFTER_CMD
                  (example_state\<lparr>makelevel := 1\<rparr>))
   \<and> makelevel (example_state\<lparr>makelevel := 1\<rparr>) \<noteq> 0
   \<and> in_debugger (engage_setup None (Some 0) (- 2) DEBUG_BRKPT_AFTER_CMD
                  (example_state\<lparr>makelevel := 1\<rparr>)) = DEBUGGER_QUIT_RC
   \<and> enter_debugger idle_externals None (Some 0) (- 2) DEBUG_BRKPT_AFTER_CMD [Some ''c'']
        (example_state\<lparr>makelevel := 1\<rparr>) =
       Done (continue_execution,
             add_history ''c''
               (dbg_msg ''remake<<0>> ''
                 (engage_setup None (Some 0) (- 2) DEBUG_BRKPT_AFTER_CMD
                    (example_state\<lparr>makelevel := 1\<rparr>))), [])
   \<and> in_debugger (add_history ''c''
               (dbg_msg ''remake<<0>> ''
                 (engage_setup None (Some 0) (- 2) DEBUG_BRKPT_AFTER_CMD
                    (example_state\<lparr>makelevel := 1\<rparr>)))) = DEBUGGER_QUIT_RC
   \<and> in_debugger (example_state\<lparr>in_debugger := DEBUGGER_QUIT_RC\<rparr>) = DEBUGGER_QUIT_RC
   \<and> enter_debugger_calls idle_externals
        [(None, Some 0, 0, DEBUG_BRKPT_BEFORE_PREREQ), (None, Some 0, - 2, DEBUG_ERROR_HIT)]
        [Some ''c''] (example_state\<lparr>in_debugger := DEBUGGER_QUIT_RC\<rparr>) =
       Done ([continue_execution, continue_execution],
             example_state\<lparr>in_debugger := DEBUGGER_QUIT_RC, last_stop_reason := DEBUG_ERROR_HIT\<rparr>,
             [Some ''c''])"
proof -
  have keep: "handlers_keep_quit_state idle_externals"
    by (simp add: handlers_keep_quit_state_def keeps_quit_state_def idle_externals_def)
  have engaged: "enter_prologue None (Some 0) (- 2) DEBUG_BRKPT_AFTER_CMD
      (example_state\<lparr>makelevel := 1\<rparr>) =
       Engaged (engage_setup None (Some 0) (- 2) DEBUG_BRKPT_AFTER_CMD
                  (example_state\<lparr>makelevel := 1\<rparr>))"
    by (simp add: enter_prologue_def enter_decision_def stop_check_def example_state_def
        BRK_NONE_def)
  have nested: "makelevel (example_state\<lparr>makelevel := 1\<rparr>) \<noteq> 0" by simp
  have returns: "enter_debugger idle_externals None (Some 0) (- 2) DEBUG_BRKPT_AFTER_CMD
        [Some ''c''] (example_state\<lparr>makelevel := 1\<rparr>) =
       Done (continue_execution,
             add_history ''c''
               (dbg_msg ''remake<<0>> ''
                 (engage_setup None (Some 0) (- 2) DEBUG_BRKPT_AFTER_CMD
                    (example_state\<lparr>makelevel := 1\<rparr>))), [])"
    unfolding enter_debugger_def engaged
    by (simp add: loop_body_def execute_line_def get_word_def
        resolve_command_def short_command_func_def initialized_letters_def idle_externals_def
        stripwhite_def chomp_def whitespace_def prompt_def nest_depth_def add_history_def
        dbg_msg_def engage_setup_def print_debugger_location_def error_banner_def
        set_frame_position_def lazy_init_def clear_temporary_def example_state_def
        BRK_NONE_def Let_def)
  have quit: "in_debugger (example_state\<lparr>in_debugger := DEBUGGER_QUIT_RC\<rparr>) = DEBUGGER_QUIT_RC"
    by simp
  from quit_state_forced_when_engaged_and_absorbing [OF keep,
      of None "Some 0" DEBUG_BRKPT_AFTER_CMD "example_state\<lparr>makelevel := 1\<rparr>"
        "engage_setup None (Some 0) (- 2) DEBUG_BRKPT_AFTER_CMD (example_state\<lparr>makelevel := 1\<rparr>)"
        "[Some ''c'']" continue_execution
        "add_history ''c''
               (dbg_msg ''remake<<0>> ''
                 (engage_setup None (Some 0) (- 2) DEBUG_BRKPT_AFTER_CMD
                    (example_state\<lparr>makelevel := 1\<rparr>)))" "[]"]
    engaged nested returns
  have first: "in_debugger (engage_setup None (Some 0) (- 2) DEBUG_BRKPT_AFTER_CMD
                  (example_state\<lparr>makelevel := 1\<rparr>)) = DEBUGGER_QUIT_RC
     \<and> in_debugger (add_history ''c''
               (dbg_msg ''remake<<0>> ''
                 (engage_setup None (Some 0) (- 2) DEBUG_BRKPT_AFTER_CMD
                    (example_state\<lparr>makelevel := 1\<rparr>)))) = DEBUGGER_QUIT_RC"
    by simp
  have calls: "enter_debugger_calls idle_externals
        [(None, Some 0, 0, DEBUG_BRKPT_BEFORE_PREREQ), (None, Some 0, - 2, DEBUG_ERROR_HIT)]
        [Some ''c''] (example_state\<lparr>in_debugger := DEBUGGER_QUIT_RC\<rparr>) =
       Done ([continue_execution, continue_execution],
             example_state\<lparr>in_debugger := DEBUGGER_QUIT_RC, last_stop_reason := DEBUG_ERROR_HIT\<rparr>,
             [Some ''c''])"
    by (simp add: enter_debugger_def enter_prologue_def enter_decision_def)
  from keep engaged nested returns first quit calls show ?thesis by simp
qed

text \<open>
  C5 as the spec states it fails: at a nested level a call with the termination code that
  falls on a counted step resumes silently; the debugger is not in the quit state
  afterwards, and the next call engages.
\<close>

theorem termination_code_skipped_by_counted_step:
  "makelevel (example_state\<lparr>makelevel := 1, i_debugger_stepping := 2\<rparr>) = 1
   \<and> enter_debugger idle_externals None (Some 0) (- 2) DEBUG_BRKPT_AFTER_CMD []
        (example_state\<lparr>makelevel := 1, i_debugger_stepping := 2\<rparr>) =
       Done (continue_execution, example_state\<lparr>makelevel := 1, i_debugger_stepping := 1\<rparr>, [])
   \<and> in_debugger (example_state\<lparr>makelevel := 1, i_debugger_stepping := 1\<rparr>) = DBG_FALSE
   \<and> enter_debugger idle_externals None (Some 0) 0 DEBUG_BRKPT_AFTER_CMD []
        (example_state\<lparr>makelevel := 1, i_debugger_stepping := 1\<rparr>) = Blocked"
  by (simp add: enter_debugger_def enter_prologue_def enter_decision_def stop_check_def
      example_state_def BRK_NONE_def)

subsection \<open>Command resolution\<close>

lemma find_command_aliases:
  "find_command ''!!'' = Some CHR ''!''" "find_command ''shell'' = Some CHR ''!''"
  "find_command ''?'' = Some CHR ''h''" "find_command ''help'' = Some CHR ''h''"
  "find_command ''L'' = Some CHR ''b''" "find_command ''break'' = Some CHR ''b''"
  "find_command ''backtrace'' = Some CHR ''T''" "find_command ''where'' = Some CHR ''T''"
  "find_command ''bt'' = Some CHR ''T''"
  "find_command ''exit'' = Some CHR ''q''" "find_command ''quit'' = Some CHR ''q''"
  "find_command ''restart'' = Some CHR ''R''" "find_command ''run'' = Some CHR ''R''"
  "find_command ''return'' = Some CHR ''q''"
  by code_simp+

text \<open>
  C2, evaluated. Through \<^verbatim>\<open>find_command\<close> every alias yields the slot of its command.
  Through \<^verbatim>\<open>execute_line\<close> the six aliases of two or more characters do as well;
  the two single-character aliases, ? and L, take the shortcut path of line 299, find no
  handler in their own slot and end as unknown commands, while help and break resolve.
\<close>

theorem single_character_aliases_do_not_resolve:
  "resolve_command E s ''?'' = None \<and> resolve_command E s ''help'' = Some CHR ''h''
   \<and> resolve_command E s ''L'' = None \<and> resolve_command E s ''break'' = Some CHR ''b''
   \<and> execute_line E ''?'' s =
        Returns debug_readloop (dbg_msg ''No such debugger command: ?.'' s)
   \<and> execute_line E ''L'' s =
        Returns debug_readloop (dbg_msg ''No such debugger command: L.'' s)
   \<and> find_command ''?'' = find_command ''help''
   \<and> find_command ''L'' = find_command ''break''
   \<and> resolve_command E s ''!!'' = resolve_command E s ''shell''
   \<and> resolve_command E s ''backtrace'' = resolve_command E s ''where''
   \<and> resolve_command E s ''bt'' = resolve_command E s ''where''
   \<and> resolve_command E s ''exit'' = resolve_command E s ''quit''
   \<and> resolve_command E s ''restart'' = resolve_command E s ''run''
   \<and> resolve_command E s ''return'' = resolve_command E s ''quit''"
  by (simp add: resolve_command_def execute_line_def get_word_def whitespace_def
      short_command_func_def initialized_letters_def find_command_aliases)

subsection \<open>The set command and the variable assignment\<close>

text \<open>
  C3, evaluated. With an argument, set trace passes the silent flag to
  \<^verbatim>\<open>on_off_toggle\<close> (set.h 120): on, off and toggle change the silent flag and leave
  the shell-trace flag as it was. Only without an argument is the shell-trace flag
  toggled (set.h 118).
\<close>

theorem set_trace_with_argument_writes_silent_flag:
  "dbg_cmd_set E (Some ''trace on'') s =
      (debug_readloop, dbg_cmd_show ''silent'' (s\<lparr>silent_flag := 1\<rparr>))
   \<and> dbg_cmd_set E (Some ''trace off'') s =
      (debug_readloop, dbg_cmd_show ''silent'' (s\<lparr>silent_flag := 0\<rparr>))
   \<and> dbg_cmd_set E (Some ''trace toggle'') s =
      (debug_readloop,
       dbg_cmd_show ''silent'' (s\<lparr>silent_flag := (if silent_flag s = 0 then 1 else 0)\<rparr>))
   \<and> no_shell_trace (snd (dbg_cmd_set E (Some ''trace on'') s)) = no_shell_trace s
   \<and> no_shell_trace (snd (dbg_cmd_set E (Some ''trace off'') s)) = no_shell_trace s
   \<and> no_shell_trace (snd (dbg_cmd_set E (Some ''trace toggle'') s)) = no_shell_trace s
   \<and> dbg_cmd_set E (Some ''trace'') s =
      (debug_readloop,
       dbg_cmd_show ''silent''
         (s\<lparr>no_shell_trace := (if no_shell_trace s = 0 then 1 else 0)\<rparr>))"
  by (simp add: dbg_cmd_set_def get_word_def whitespace_def is_abbrev_of_def
      on_off_toggle_def dbg_cmd_show_def dbg_msg_def)

lemma set_var_option_flags:
  "option_flags (snd (dbg_cmd_set_var E a expand s)) = option_flags s"
  by (simp add: dbg_cmd_set_var_def set_var_define_def define_variable_in_set_def dbg_msg_def
      option_flags_def Let_def split: option.split prod.split)

lemma set_var_returns: "fst (dbg_cmd_set_var E a expand s) = debug_readloop"
  by (simp add: dbg_cmd_set_var_def Let_def split: option.split prod.split)

lemma char_incr_blank: "char_incr CHR '' '' = CHR ''!''"
  by code_simp

lemma char_incr_tab: "char_incr CHR 0x09 = CHR 0x0A"
  by code_simp

lemma bump_blanks_blank: "bump_blanks (CHR '' '' # cs) = CHR ''!'' # cs"
  by (simp add: whitespace_def char_incr_blank)

lemma bump_blanks_tab: "bump_blanks (CHR 0x09 # cs) = CHR 0x0A # cs"
  by (simp add: whitespace_def char_incr_tab)

lemma bump_blanks_other: "\<not> whitespace c \<Longrightarrow> bump_blanks (c # cs) = c # cs"
  by simp

text \<open>
  C9, evaluated. With two blanks between the name and the value the loop of lines 357-358
  turns the second blank into an exclamation mark and skips nothing: the value stored
  is !bar. With one blank it is bar.
\<close>

theorem set_var_stores_bumped_value:
  "variables (snd (dbg_cmd_set_var E (Some ''FOO  bar'') 0 foo_state)) ''FOO'' =
      Some \<lparr>v_value = ''!bar'', v_origin = o_debugger, v_fileinfo = 0\<rparr>
   \<and> variables (snd (dbg_cmd_set_var E (Some ''FOO bar'') 0 foo_state)) ''FOO'' =
      Some \<lparr>v_value = ''bar'', v_origin = o_debugger, v_fileinfo = 0\<rparr>"
  by (simp add: dbg_cmd_set_var_def get_word_def whitespace_def lookup_variable_def
      c_bytes_def foo_state_def example_state_def set_var_define_def
      define_variable_in_set_def dbg_msg_def bump_blanks_blank bump_blanks_other
      del: bump_blanks.simps(2))

text \<open>
  C4, evaluated. Assigning through $FOO finds the variable FOO by the retry, and defines
  under its name with the length of the word typed, 4: the name of four bytes that
  results is not FOO. Reading FOO afterwards yields the old binding; the value is under
  another name. Assigning through FOO writes the binding of FOO.
\<close>

theorem set_var_sigil_defines_another_name:
  "dbg_cmd_set_var E (Some ''$FOO bar'') 0 foo_state =
      (debug_readloop,
       dbg_msg (''Variable $FOO now has value '' @ [CHR 0x27] @ ''bar'' @ [CHR 0x27])
         (define_variable_in_set ''FOO'' 4 ''bar'' o_debugger 0 foo_state))
   \<and> variables (snd (dbg_cmd_set_var E (Some ''$FOO bar'') 0 foo_state)) ''FOO'' =
      Some \<lparr>v_value = ''old'', v_origin = o_file, v_fileinfo = 0\<rparr>
   \<and> variables (snd (dbg_cmd_set_var E (Some ''$FOO bar'') 0 foo_state)) (''FOO'' @ [CHR 0x00]) =
      Some \<lparr>v_value = ''bar'', v_origin = o_debugger, v_fileinfo = 0\<rparr>
   \<and> variables (snd (dbg_cmd_set_var E (Some ''FOO bar'') 0 foo_state)) ''FOO'' =
      Some \<lparr>v_value = ''bar'', v_origin = o_debugger, v_fileinfo = 0\<rparr>"
  by (simp add: dbg_cmd_set_var_def get_word_def whitespace_def lookup_variable_def
      try_without_dollar_def
      c_bytes_def foo_state_def example_state_def set_var_define_def
      define_variable_in_set_def dbg_msg_def)

lemma not_resolved:
  assumes "\<not> resolves_to_option w"
  shows "\<not> is_abbrev_of w ''basename'' 4" "\<not> is_abbrev_of w ''debug'' 3"
    "\<not> is_abbrev_of w ''ignore-errors'' 3" "\<not> is_abbrev_of w ''keep-going'' 3"
    "\<not> is_abbrev_of w ''silent'' 3" "\<not> is_abbrev_of w ''trace'' 3"
  using assms by (simp_all add: resolves_to_option_def set_options_def)

lemma set_unresolved:
  assumes "a \<noteq> []" and "\<not> resolves_to_option (fst (get_word a))"
  shows "option_flags (snd (dbg_cmd_set E (Some a) s)) = option_flags s"
    and "fst (dbg_cmd_set E (Some a) s) = debug_readloop"
proof -
  obtain w rest where gw: "get_word a = (w, rest)" by (cases "get_word a") auto
  with assms(2) have nr: "\<not> resolves_to_option w" by simp
  have eq: "dbg_cmd_set E (Some a) s =
      dbg_cmd_set_var E (Some (bump_blanks rest)) (if is_abbrev_of w ''variable'' 3 then 3 else 1) s"
    using assms(1) gw not_resolved [OF nr] by (simp add: dbg_cmd_set_def Let_def)
  show "option_flags (snd (dbg_cmd_set E (Some a) s)) = option_flags s"
    unfolding eq by (rule set_var_option_flags)
  show "fst (dbg_cmd_set E (Some a) s) = debug_readloop"
    unfolding eq by (rule set_var_returns)
qed

text \<open>
  C7. A first word that none of the six option tests accepts changes no option flag, and
  the command returns to the loop. A word shorter than an option's minimum length is not
  accepted as that option, and a word that is a prefix of no option name resolves to
  none. The word deb resolves to debug (set deb 7 stores what \<^verbatim>\<open>get_int\<close> reads
  in the debug mask); the word d resolves to no option.
\<close>

theorem set_rejects_unresolved_option_name:
  assumes "a \<noteq> []" and "\<not> resolves_to_option (fst (get_word a))"
  shows "option_flags (snd (dbg_cmd_set E (Some a) s)) = option_flags s
       \<and> fst (dbg_cmd_set E (Some a) s) = debug_readloop
       \<and> ((name, i_min) \<in> set set_options \<and> length w < i_min
            \<longrightarrow> \<not> is_abbrev_of w name i_min)
       \<and> ((\<forall>(name, i_min) \<in> set set_options. take (length w) name \<noteq> w)
            \<longrightarrow> \<not> resolves_to_option w)
       \<and> resolves_to_option ''deb'' \<and> is_abbrev_of ''deb'' ''debug'' 3
       \<and> dbg_cmd_set E (Some ''deb 7'') s =
            (debug_readloop,
             case get_int E ''7'' of Some dbg_mask \<Rightarrow> s\<lparr>db_level := dbg_mask\<rparr> | None \<Rightarrow> s)
       \<and> \<not> resolves_to_option ''d''"
proof -
  have short: "(name, i_min) \<in> set set_options \<and> length w < i_min
            \<longrightarrow> \<not> is_abbrev_of w name i_min"
    by (simp add: is_abbrev_of_def)
  have nomatch: "(\<forall>(name, i_min) \<in> set set_options. take (length w) name \<noteq> w)
            \<longrightarrow> \<not> resolves_to_option w"
    by (simp add: resolves_to_option_def set_options_def is_abbrev_of_def)
  have deb: "resolves_to_option ''deb'' \<and> is_abbrev_of ''deb'' ''debug'' 3"
    by (simp add: resolves_to_option_def set_options_def is_abbrev_of_def)
  have deb7: "dbg_cmd_set E (Some ''deb 7'') s =
            (debug_readloop,
             case get_int E ''7'' of Some dbg_mask \<Rightarrow> s\<lparr>db_level := dbg_mask\<rparr> | None \<Rightarrow> s)"
    by (simp add: dbg_cmd_set_def get_word_def whitespace_def is_abbrev_of_def)
  have d: "\<not> resolves_to_option ''d''"
    by (simp add: resolves_to_option_def set_options_def is_abbrev_of_def)
  from set_unresolved [OF assms] short nomatch deb deb7 d show ?thesis by blast
qed

theorem set_rejects_unresolved_option_name_witness:
  "''d on'' \<noteq> [] \<and> \<not> resolves_to_option (fst (get_word ''d on''))
   \<and> option_flags (snd (dbg_cmd_set idle_externals (Some ''d on'') example_state))
        = option_flags example_state
   \<and> fst (dbg_cmd_set idle_externals (Some ''d on'') example_state) = debug_readloop
   \<and> (''debug'', 3) \<in> set set_options \<and> length ''de'' < 3
   \<and> \<not> is_abbrev_of ''de'' ''debug'' 3
   \<and> \<not> resolves_to_option ''xyz''"
proof -
  have a: "''d on'' \<noteq> []" by simp
  have b: "\<not> resolves_to_option (fst (get_word ''d on''))"
    by (simp add: resolves_to_option_def set_options_def is_abbrev_of_def get_word_def
        whitespace_def)
  have c: "(''debug'', 3) \<in> set set_options \<and> length ''de'' < 3"
    by (simp add: set_options_def)
  have d: "\<forall>(name, i_min) \<in> set set_options. take (length ''xyz'') name \<noteq> ''xyz''"
    by (simp add: set_options_def)
  from set_rejects_unresolved_option_name [OF a b,
      where name = "''debug''" and i_min = 3 and w = "''de''" and E = idle_externals
        and s = example_state]
    set_rejects_unresolved_option_name [OF a b, where w = "''xyz''"]
    a b c d
  show ?thesis by simp
qed

end
